theory Spec2Isabelle
  imports Complex_Main
begin

section \<open>JavaScript strings and numbers, as far as \<^verbatim>\<open>serial.js\<close> uses them\<close>

text \<open>
  Strings are lists of characters. Only three string operations of the language occur in
  \<^verbatim>\<open>src/main/serial.js\<close>: \<^verbatim>\<open>startsWith\<close>, \<^verbatim>\<open>substring(6)\<close> (which is
  \<open>drop 6\<close>) and \<^verbatim>\<open>trim\<close>. A character is a code unit below 256. What \<^verbatim>\<open>trim\<close> strips
  are the white space and the line terminators of the language; among these characters
  they are tab, line feed, vertical tab, form feed, carriage return, space and the
  no-break space (\<open>0xA0\<close>). The others lie beyond 255, outside the character type.
\<close>

definition startsWith :: "string \<Rightarrow> string \<Rightarrow> bool" where
  "startsWith s p = (take (length p) s = p)"

definition is_space :: "char \<Rightarrow> bool" where
  "is_space c =
     (c = CHR 0x09 \<or> c = CHR 0x0A \<or> c = CHR 0x0B \<or> c = CHR 0x0C \<or> c = CHR 0x0D \<or>
      c = CHR 0x20 \<or> c = CHR 0xA0)"

definition trim :: "string \<Rightarrow> string" where
  "trim s = rev (dropWhile is_space (rev (dropWhile is_space s)))"

text \<open>
  A number is \<^verbatim>\<open>NaN\<close>, an infinity, or a finite value \<open>Dec m e\<close>, which stands for
  \<open>m * 10 ^ e\<close>: a finite double is taken by the decimal digits the language prints for
  it. \<open>number_toString\<close> is the algorithm \<^verbatim>\<open>Number::toString\<close> of the language
  standard (radix 10), which a template literal \<^verbatim>\<open>`X${position.x}`\<close> applies to a
  number: \<open>s\<close> are the digits without trailing zeros, \<open>k\<close> their count and \<open>n\<close> the
  position of the decimal point.
\<close>

datatype jsnum = NaN | PosInfinity | NegInfinity | Dec int int

definition digit_char :: "nat \<Rightarrow> char" where
  "digit_char d = ''0123456789'' ! (d mod 10)"

function digits :: "nat \<Rightarrow> string" where
  "digits n = (if n < 10 then [digit_char n] else digits (n div 10) @ [digit_char n])"
  by pat_completeness auto
termination
  by (relation "measure id") auto

declare digits.simps [simp del]

function strip_zeros :: "nat \<Rightarrow> int \<Rightarrow> nat \<times> int" where
  "strip_zeros s e =
     (if s \<noteq> 0 \<and> s mod 10 = 0 then strip_zeros (s div 10) (e + 1) else (s, e))"
  by pat_completeness auto
termination
  by (relation "measure fst") auto

declare strip_zeros.simps [simp del]

definition exponent_part :: "int \<Rightarrow> string" where
  "exponent_part n = ''e'' @ (if n - 1 < 0 then ''-'' else ''+'') @ digits (nat \<bar>n - 1\<bar>)"

definition positive_toString :: "nat \<Rightarrow> int \<Rightarrow> string" where
  "positive_toString s0 e0 =
     (let (s, e) = strip_zeros s0 e0;
          ds = digits s;
          k = int (length ds);
          n = e + k
      in if k \<le> n \<and> n \<le> 21 then ds @ replicate (nat (n - k)) (CHR ''0'')
         else if 0 < n \<and> n \<le> 21 then take (nat n) ds @ ''.'' @ drop (nat n) ds
         else if - 6 < n \<and> n \<le> 0 then ''0.'' @ replicate (nat (- n)) (CHR ''0'') @ ds
         else if k = 1 then ds @ exponent_part n
         else take 1 ds @ ''.'' @ drop 1 ds @ exponent_part n)"

fun number_toString :: "jsnum \<Rightarrow> string" where
  "number_toString NaN = ''NaN''"
| "number_toString PosInfinity = ''Infinity''"
| "number_toString NegInfinity = ''-Infinity''"
| "number_toString (Dec m e) =
     (if m = 0 then ''0''
      else if m < 0 then ''-'' @ positive_toString (nat (- m)) e
      else positive_toString (nat m) e)"

text \<open>The comparison \<^verbatim>\<open>this.currentSpeed > 0\<close>; it is false for \<^verbatim>\<open>NaN\<close>.\<close>

fun greater_than_zero :: "jsnum \<Rightarrow> bool" where
  "greater_than_zero NaN = False"
| "greater_than_zero PosInfinity = True"
| "greater_than_zero NegInfinity = False"
| "greater_than_zero (Dec m e) = (0 < m)"

text \<open>The characters that can occur in the text of a number.\<close>

definition number_chars :: "char set" where
  "number_chars = set ''0123456789.e+-NaInfity''"

section \<open>The command builder\<close>

text \<open>
  The argument \<^verbatim>\<open>{x, y, z}\<close> of \<^verbatim>\<open>absoluteMove\<close> and \<^verbatim>\<open>deltaMove\<close>: each axis is a
  number or \<^verbatim>\<open>undefined\<close> (\<open>None\<close>), as the documentation comments of the two methods
  give it. The fields are named \<open>x_of\<close>, \<open>y_of\<close>, \<open>z_of\<close> for \<^verbatim>\<open>x\<close>, \<^verbatim>\<open>y\<close>, \<^verbatim>\<open>z\<close>.
\<close>

record axes =
  x_of :: "jsnum option"
  y_of :: "jsnum option"
  z_of :: "jsnum option"

text \<open>One step \<^verbatim>\<open>if (v !== undefined) command += ` X${v}`\<close>.\<close>

definition axis_part :: "string \<Rightarrow> jsnum option \<Rightarrow> string" where
  "axis_part letter v = (case v of None \<Rightarrow> [] | Some n \<Rightarrow> '' '' @ letter @ number_toString n)"

definition speed_part :: "jsnum \<Rightarrow> string" where
  "speed_part sp = (if greater_than_zero sp then '' F'' @ number_toString sp else [])"

text \<open>The text \<^verbatim>\<open>absoluteMove\<close> builds (lines 370 to 380 of \<^verbatim>\<open>serial.js\<close>).\<close>

definition absoluteMove_command :: "axes \<Rightarrow> bool \<Rightarrow> jsnum \<Rightarrow> string" where
  "absoluteMove_command position rapid sp =
     (let gcode = (if rapid then ''G0'' else ''G1'');
          command = gcode;
          command = command @ axis_part ''X'' (x_of position);
          command = command @ axis_part ''Y'' (y_of position);
          command = command @ axis_part ''Z'' (z_of position);
          command = command @ speed_part sp
      in command)"

text \<open>The text of the motion command of \<^verbatim>\<open>deltaMove\<close> (lines 399 to 409).\<close>

definition deltaMove_command :: "axes \<Rightarrow> bool \<Rightarrow> jsnum \<Rightarrow> string" where
  "deltaMove_command distance rapid sp =
     (let gcode = (if rapid then ''G0'' else ''G1'');
          command = gcode;
          command = command @ axis_part ''X'' (x_of distance);
          command = command @ axis_part ''Y'' (y_of distance);
          command = command @ axis_part ''Z'' (z_of distance);
          command = command @ speed_part sp
      in command)"

text \<open>
  The argument of \<^verbatim>\<open>setHome\<close>, three flags read for their truth value, and the text it
  builds (lines 321 to 327).
\<close>

record home_axes =
  home_x :: bool
  home_y :: bool
  home_z :: bool

definition setHome_command :: "home_axes \<Rightarrow> string" where
  "setHome_command a =
     (let command = ''G28'' in
      if home_x a \<or> home_y a \<or> home_z a
      then (let command = (if home_x a then command @ '' X0'' else command);
                command = (if home_y a then command @ '' Y0'' else command);
                command = (if home_z a then command @ '' Z0'' else command)
            in command)
      else command)"

section \<open>The serial client\<close>

text \<open>
  The class \<^verbatim>\<open>SerialGCodePrinter\<close> is event driven: its methods start an operation and
  return a promise, and callbacks of the serial port, of the line parser and of timers
  finish it later. The model makes this explicit. A promise is a number (\<open>pid\<close>), and
  the functions \<^verbatim>\<open>resolve\<close> and \<^verbatim>\<open>reject\<close> of a promise are identified with it; every
  call of one of them is appended to the field \<open>invoked\<close>, so that the number of calls
  can be counted, and the first call for a promise is its result. Closures that wait for
  an event (the callback of \<^verbatim>\<open>port.write\<close>, the callback of \<^verbatim>\<open>port.close\<close>, the handlers
  of a port, a timer) are kept in the state with the variables they capture.
\<close>

type_synonym pid = nat
type_synonym tid = nat

text \<open>
  The errors the class creates itself are \<open>NotConnected\<close> (\<^verbatim>\<open>new Error('Not connected
  to printer')\<close>) and \<open>TimedOut\<close> (the timeout error of \<^verbatim>\<open>sendCommand\<close>, with the command and
  the duration its message prints). \<open>External m\<close> is an error object that the serial
  port library passes in, with message \<open>m\<close>. \<open>TypeError\<close> is the error of the language for
  \<^verbatim>\<open>this.port.close\<close> when \<^verbatim>\<open>this.port\<close> is \<^verbatim>\<open>null\<close>. The message of the timeout
  prints the duration as the template literal does, with \<open>number_toString\<close>.
\<close>

datatype jserror = NotConnected | TimedOut string nat | External string | TypeError

fun message :: "jserror \<Rightarrow> string" where
  "message NotConnected = ''Not connected to printer''"
| "message (TimedOut command timeout) =
     ''Command '' @ [CHR 0x22] @ command @ [CHR 0x22] @ '' timed out after '' @
       number_toString (Dec (int timeout) 0) @ ''ms''"
| "message (External m) = m"
| "message TypeError =
     ''Cannot read properties of null (reading '' @ [CHR 0x27] @ ''close'' @ [CHR 0x27] @ '')''"

datatype outcome = Fulfilled | Rejected jserror

text \<open>
  The two closures given to \<^verbatim>\<open>setTimeout\<close>: the timeout of a command (lines 252 to 261,
  capturing \<^verbatim>\<open>command\<close>, \<^verbatim>\<open>timeout\<close> and the promise) and the start-up delay of
  \<^verbatim>\<open>connect\<close> (lines 142 to 146, capturing the promise of \<^verbatim>\<open>connect\<close>).
\<close>

datatype timer_closure = CommandTimeout string nat pid | StartupDelay pid

text \<open>
  An \<^verbatim>\<open>async\<close> function suspended at an \<^verbatim>\<open>await\<close>, with what it still has to do: the
  start-up function of \<^verbatim>\<open>connect\<close> after \<^verbatim>\<open>M115\<close>, and \<^verbatim>\<open>deltaMove\<close> at its three
  commands and in its \<^verbatim>\<open>catch\<close> block. The first argument is the promise of the
  suspended function itself.
\<close>

datatype cont =
    ConnectAwaitM115 pid
  | DmAwaitG91 pid axes bool
  | DmAwaitMove pid
  | DmReturnG90 pid
  | DmAwaitRestore pid jserror

text \<open>What \<^verbatim>\<open>sendCommand\<close> returns: a pending promise, or one already rejected.\<close>

datatype promise = Pending pid | AlreadyRejected pid jserror

text \<open>
  The first eight fields are the fields of the class (\<open>port\<close> and \<open>mainWindow\<close> say
  whether the field holds an object; the parser has no field of its own here). The others
  are the environment: what was handed to \<^verbatim>\<open>port.write\<close>, the closures waiting for an
  event, the calls of continuations, the messages sent to the renderer, the calls of the
  callbacks registered with \<^verbatim>\<open>onError\<close>, the restore failures \<^verbatim>\<open>deltaMove\<close> logs, and
  the next fresh identifier (one counter serves promises and timers). Time is not
  measured: a timer that is armed may fire at any later event. Calls of the logger are
  left out, but for the restore failure; so are the path and the options of the port,
  \<^verbatim>\<open>listPorts\<close> and \<^verbatim>\<open>cleanup\<close>.
\<close>

record client =
  port :: bool
  currentSpeed :: jsnum
  isConnected :: bool
  moveCompleteCallbacks :: "pid list"
  errorCallbacks :: "nat list"
  currentCommand :: "string option"
  timeoutId :: "tid option"
  mainWindow :: bool
  writes :: "string list"
  writeCallbacks :: "(pid \<times> string \<times> nat) list"
  closeCallbacks :: "pid list"
  portHandlers :: "pid list"
  timers :: "(tid \<times> timer_closure) list"
  invoked :: "(pid \<times> outcome) list"
  awaiting :: "(pid \<times> cont) list"
  rendererErrors :: "string list"
  errorCallbackCalls :: "(nat \<times> string) list"
  restoreFailures :: "jserror list"
  nextId :: nat

text \<open>The constructor (lines 16 to 26).\<close>

definition new_client :: client where
  "new_client =
     \<lparr> port = False, currentSpeed = Dec 0 0, isConnected = False,
       moveCompleteCallbacks = [], errorCallbacks = [], currentCommand = None,
       timeoutId = None, mainWindow = False, writes = [], writeCallbacks = [],
       closeCallbacks = [], portHandlers = [], timers = [], invoked = [], awaiting = [],
       rendererErrors = [], errorCallbackCalls = [], restoreFailures = [], nextId = 0 \<rparr>"

definition initializeIPC :: "client \<Rightarrow> client" where
  "initializeIPC s = s\<lparr>mainWindow := True\<rparr>"

definition default_timeout :: nat where
  "default_timeout = 30000"

definition sendErrorToRenderer :: "string \<Rightarrow> client \<Rightarrow> client" where
  "sendErrorToRenderer m s =
     (if mainWindow s then s\<lparr>rendererErrors := rendererErrors s @ [m]\<rparr> else s)"

text \<open>A call of \<^verbatim>\<open>resolve\<close> (\<open>Fulfilled\<close>) or \<^verbatim>\<open>reject\<close> of promise \<open>p\<close>.\<close>

definition invoke :: "pid \<Rightarrow> outcome \<Rightarrow> client \<Rightarrow> client" where
  "invoke p out s = s\<lparr>invoked := invoked s @ [(p, out)]\<rparr>"

definition result_of :: "client \<Rightarrow> pid \<Rightarrow> outcome option" where
  "result_of s p = map_of (invoked s) p"

definition times_invoked :: "client \<Rightarrow> pid \<Rightarrow> nat" where
  "times_invoked s p = length (filter (\<lambda>c. fst c = p) (invoked s))"

text \<open>
  \<^verbatim>\<open>if (this.timeoutId) { clearTimeout(this.timeoutId); this.timeoutId = null; }\<close>, as
  \<^verbatim>\<open>processResponse\<close> and \<^verbatim>\<open>disconnect\<close> have it. A timer handle of the main process is
  an object, so the test asks whether the field is set. The field keeps the handle of a
  timer that has fired; clearing such a timer does nothing.
\<close>

definition clear_timeout :: "client \<Rightarrow> client" where
  "clear_timeout s =
     (case timeoutId s of
        None \<Rightarrow> s
      | Some t \<Rightarrow> s\<lparr>timers := filter (\<lambda>e. fst e \<noteq> t) (timers s), timeoutId := None\<rparr>)"

definition fresh :: "client \<Rightarrow> client" where
  "fresh s = s\<lparr>nextId := nextId s + 1\<rparr>"

subsection \<open>Responses of the device\<close>

text \<open>
  \<^verbatim>\<open>processResponse\<close> (lines 172 to 216), in two parts for its two \<^verbatim>\<open>if\<close> statements,
  which run one after the other. The callbacks of \<open>moveCompleteCallbacks\<close> are the
  \<^verbatim>\<open>resolve\<close> functions that \<^verbatim>\<open>sendCommand\<close> registered; those of \<open>errorCallbacks\<close>
  are the ones registered with \<^verbatim>\<open>onError\<close>.
\<close>

definition on_ok :: "client \<Rightarrow> client" where
  "on_ok s =
     (let s = clear_timeout s;
          s = s\<lparr>currentCommand := None\<rparr>
      in if length (moveCompleteCallbacks s) > 0
         then (fold (\<lambda>callback. invoke callback Fulfilled) (moveCompleteCallbacks s) s)
                \<lparr>moveCompleteCallbacks := []\<rparr>
         else s)"

definition on_error_line :: "string \<Rightarrow> client \<Rightarrow> client" where
  "on_error_line line s =
     (let errorMessage = trim (drop 6 line);
          s = clear_timeout s;
          s = sendErrorToRenderer errorMessage s;
          s = s\<lparr>currentCommand := None\<rparr>
      in if length (errorCallbacks s) > 0
         then s\<lparr>errorCallbackCalls :=
                  errorCallbackCalls s @ map (\<lambda>callback. (callback, errorMessage)) (errorCallbacks s)\<rparr>
         else s)"

definition processResponse :: "string \<Rightarrow> client \<Rightarrow> client" where
  "processResponse line s =
     (let s = (if line = ''ok'' then on_ok s else s)
      in if startsWith line ''Error:'' then on_error_line line s else s)"

text \<open>The handler of the parser's \<^verbatim>\<open>data\<close> event (lines 137 to 139).\<close>

definition on_data :: "string \<Rightarrow> client \<Rightarrow> client" where
  "on_data line s = processResponse (trim line) s"

subsection \<open>Sending a command\<close>

text \<open>
  \<^verbatim>\<open>sendCommand\<close> up to its return (lines 224 to 234): the check of the connection, the
  assignment to \<open>currentCommand\<close> and the call of \<^verbatim>\<open>port.write\<close>, whose callback waits in
  \<open>writeCallbacks\<close>. The promise is the fresh identifier. The source's test
  \<^verbatim>\<open>!this.isConnected || !this.port\<close> is written as the negation of a conjunction.
\<close>

definition sendCommand :: "string \<Rightarrow> nat \<Rightarrow> client \<Rightarrow> promise \<times> client" where
  "sendCommand command timeout s =
     (let p = nextId s;
          s = fresh s
      in if \<not> (isConnected s \<and> port s)
         then (AlreadyRejected p NotConnected,
               invoke p (Rejected NotConnected) (sendErrorToRenderer (message NotConnected) s))
         else (Pending p,
               s\<lparr>currentCommand := Some command,
                 writes := writes s @ [command @ [CHR 0x0A]],
                 writeCallbacks := writeCallbacks s @ [(p, command, timeout)]\<rparr>))"

text \<open>\<^verbatim>\<open>onMoveComplete\<close> and \<^verbatim>\<open>onError\<close> (lines 272 to 282).\<close>

definition onMoveComplete :: "pid \<Rightarrow> client \<Rightarrow> client" where
  "onMoveComplete callback s = s\<lparr>moveCompleteCallbacks := moveCompleteCallbacks s @ [callback]\<rparr>"

definition onError :: "nat \<Rightarrow> client \<Rightarrow> client" where
  "onError callback s = s\<lparr>errorCallbacks := errorCallbacks s @ [callback]\<rparr>"

text \<open>
  The callback of \<^verbatim>\<open>port.write\<close> (lines 234 to 264) for the promise \<open>p\<close> of a call
  \<^verbatim>\<open>sendCommand(command, timeout)\<close>; \<open>err\<close> is the message of the error the port reports,
  if any.
\<close>

definition write_callback :: "string \<Rightarrow> nat \<Rightarrow> pid \<Rightarrow> string option \<Rightarrow> client \<Rightarrow> client" where
  "write_callback command timeout p err s =
     (case err of
        Some m \<Rightarrow>
          (let s = s\<lparr>currentCommand := None\<rparr>;
               s = sendErrorToRenderer (''Failed to send command: '' @ m) s
           in invoke p (Rejected (External m)) s)
      | None \<Rightarrow>
          if command = ''M115'' \<or> startsWith command ''M114''
          then invoke p Fulfilled s
          else (let s = onMoveComplete p s;
                    t = nextId s;
                    s = fresh s
                in s\<lparr>timers := timers s @ [(t, CommandTimeout command timeout p)],
                     timeoutId := Some t\<rparr>))"

text \<open>The closure of the timeout (lines 252 to 261), when its timer fires.\<close>

definition timeout_fires :: "string \<Rightarrow> nat \<Rightarrow> pid \<Rightarrow> client \<Rightarrow> client" where
  "timeout_fires command timeout p s =
     (if currentCommand s = Some command
      then (let s = s\<lparr>moveCompleteCallbacks := filter (\<lambda>cb. cb \<noteq> p) (moveCompleteCallbacks s)\<rparr>;
                s = s\<lparr>currentCommand := None\<rparr>;
                timeoutError = TimedOut command timeout;
                s = sendErrorToRenderer (message timeoutError) s
            in invoke p (Rejected timeoutError) s)
      else s)"

subsection \<open>Connecting and disconnecting\<close>

text \<open>
  \<^verbatim>\<open>connect\<close> (lines 113 to 165). \<open>ctor_err\<close> is the message of the error that creating
  the port throws, if it throws. Otherwise the port exists, its handlers are registered
  (they capture the promise of this call) and \<^verbatim>\<open>port.open()\<close> is called; the events
  \<^verbatim>\<open>open\<close> and \<^verbatim>\<open>error\<close> come later.
\<close>

definition connect :: "string option \<Rightarrow> client \<Rightarrow> client" where
  "connect ctor_err s =
     (let p = nextId s;
          s = fresh s
      in case ctor_err of
           Some m \<Rightarrow>
             (let s = s\<lparr>isConnected := False\<rparr>;
                  s = sendErrorToRenderer (''Connection error: '' @ m) s
              in invoke p (Rejected (External m)) s)
         | None \<Rightarrow> s\<lparr>port := True, portHandlers := portHandlers s @ [p]\<rparr>)"

text \<open>The handler of \<^verbatim>\<open>open\<close> (lines 132 to 147); the timer is not kept in \<open>timeoutId\<close>.\<close>

definition port_open :: "pid \<Rightarrow> client \<Rightarrow> client" where
  "port_open cp s =
     (let s = s\<lparr>isConnected := True\<rparr>;
          t = nextId s;
          s = fresh s
      in s\<lparr>timers := timers s @ [(t, StartupDelay cp)]\<rparr>)"

text \<open>
  The function given to that timer (lines 142 to 146). When \<^verbatim>\<open>sendCommand\<close> rejects, the
  function ends with an exception that nothing handles, and the promise of \<^verbatim>\<open>connect\<close>
  stays as it is.
\<close>

definition startup_fires :: "pid \<Rightarrow> client \<Rightarrow> client" where
  "startup_fires cp s =
     (case sendCommand ''M115'' default_timeout s of
        (AlreadyRejected p e, s) \<Rightarrow> s
      | (Pending p, s) \<Rightarrow> s\<lparr>awaiting := awaiting s @ [(p, ConnectAwaitM115 cp)]\<rparr>)"

text \<open>The handler of the port's \<^verbatim>\<open>error\<close> event (lines 149 to 154).\<close>

definition port_error :: "pid \<Rightarrow> string \<Rightarrow> client \<Rightarrow> client" where
  "port_error cp m s =
     (let s = s\<lparr>isConnected := False\<rparr>;
          s = sendErrorToRenderer (''Serial port error: '' @ m) s
      in invoke cp (Rejected (External m)) s)"

text \<open>
  \<^verbatim>\<open>disconnect\<close> up to its return (lines 288 to 300); its promise is the fresh
  identifier. The callback of \<^verbatim>\<open>port.close\<close> waits in \<open>closeCallbacks\<close>.
\<close>

definition disconnect :: "client \<Rightarrow> client" where
  "disconnect s =
     (let p = nextId s;
          s = fresh s
      in if \<not> isConnected s then invoke p Fulfilled s
         else (let s = clear_timeout s
               in if port s then s\<lparr>closeCallbacks := closeCallbacks s @ [p]\<rparr>
                  else invoke p (Rejected TypeError) s))"

text \<open>The callback of \<^verbatim>\<open>port.close\<close> (lines 300 to 311).\<close>

definition close_callback :: "pid \<Rightarrow> string option \<Rightarrow> client \<Rightarrow> client" where
  "close_callback p err s =
     (case err of
        Some m \<Rightarrow> invoke p (Rejected (External m)) (sendErrorToRenderer (''Disconnection error: '' @ m) s)
      | None \<Rightarrow> invoke p Fulfilled (s\<lparr>isConnected := False, port := False\<rparr>))"

subsection \<open>Homing, speed and moves\<close>

text \<open>
  \<^verbatim>\<open>setHome\<close>, \<^verbatim>\<open>goHome\<close> and \<^verbatim>\<open>absoluteMove\<close> end with \<^verbatim>\<open>return this.sendCommand(...)\<close>;
  their promise settles as the one of \<^verbatim>\<open>sendCommand\<close> does and is identified with it.
  \<^verbatim>\<open>setSpeed\<close> stores the value and returns a fulfilled promise.
\<close>

definition setHome :: "home_axes \<Rightarrow> client \<Rightarrow> promise \<times> client" where
  "setHome a s = sendCommand (setHome_command a) default_timeout s"

definition goHome :: "client \<Rightarrow> promise \<times> client" where
  "goHome s = sendCommand ''G28'' default_timeout s"

definition setSpeed :: "jsnum \<Rightarrow> client \<Rightarrow> client" where
  "setSpeed speed s =
     (let s = s\<lparr>currentSpeed := speed\<rparr>;
          p = nextId s;
          s = fresh s
      in invoke p Fulfilled s)"

definition getSpeed :: "client \<Rightarrow> jsnum" where
  "getSpeed s = currentSpeed s"

definition absoluteMove :: "axes \<Rightarrow> bool \<Rightarrow> client \<Rightarrow> promise \<times> client" where
  "absoluteMove position rapid s =
     sendCommand (absoluteMove_command position rapid (currentSpeed s)) default_timeout s"

text \<open>
  \<^verbatim>\<open>deltaMove\<close> (lines 392 to 424) runs in pieces, one for each \<^verbatim>\<open>await\<close>. \<open>suspend\<close>
  parks the function at a pending promise. \<open>dm_catch\<close> is the \<^verbatim>\<open>catch\<close> block: it sends
  \<^verbatim>\<open>G90\<close>, and once that command has settled (\<open>DmAwaitRestore\<close>) it throws the error it
  caught. \<open>dm_move\<close> is the part of the \<^verbatim>\<open>try\<close> block between the first and the second
  \<^verbatim>\<open>await\<close>, \<open>dm_return\<close> is \<^verbatim>\<open>return this.sendCommand('G90')\<close>, whose promise becomes
  the result of \<^verbatim>\<open>deltaMove\<close> without passing through the \<^verbatim>\<open>catch\<close> block. An \<^verbatim>\<open>await\<close>
  of a promise that is already rejected goes on at once: no event comes between.
\<close>

definition suspend :: "pid \<Rightarrow> cont \<Rightarrow> client \<Rightarrow> client" where
  "suspend p k s = s\<lparr>awaiting := awaiting s @ [(p, k)]\<rparr>"

definition dm_catch :: "pid \<Rightarrow> jserror \<Rightarrow> client \<Rightarrow> client" where
  "dm_catch outer error s =
     (case sendCommand ''G90'' default_timeout s of
        (AlreadyRejected p restoreError, s) \<Rightarrow>
          invoke outer (Rejected error) (s\<lparr>restoreFailures := restoreFailures s @ [restoreError]\<rparr>)
      | (Pending p, s) \<Rightarrow> suspend p (DmAwaitRestore outer error) s)"

definition dm_move :: "pid \<Rightarrow> axes \<Rightarrow> bool \<Rightarrow> client \<Rightarrow> client" where
  "dm_move outer distance rapid s =
     (case sendCommand (deltaMove_command distance rapid (currentSpeed s)) default_timeout s of
        (AlreadyRejected p error, s) \<Rightarrow> dm_catch outer error s
      | (Pending p, s) \<Rightarrow> suspend p (DmAwaitMove outer) s)"

definition dm_return :: "pid \<Rightarrow> client \<Rightarrow> client" where
  "dm_return outer s =
     (case sendCommand ''G90'' default_timeout s of
        (AlreadyRejected p error, s) \<Rightarrow> invoke outer (Rejected error) s
      | (Pending p, s) \<Rightarrow> suspend p (DmReturnG90 outer) s)"

definition deltaMove :: "axes \<Rightarrow> bool \<Rightarrow> client \<Rightarrow> client" where
  "deltaMove distance rapid s =
     (let outer = nextId s;
          s = fresh s
      in case sendCommand ''G91'' default_timeout s of
           (AlreadyRejected p error, s) \<Rightarrow> dm_catch outer error s
         | (Pending p, s) \<Rightarrow> suspend p (DmAwaitG91 outer distance rapid) s)"

text \<open>A suspended function goes on when the promise it awaits has settled with \<open>out\<close>.\<close>

fun resume :: "cont \<Rightarrow> outcome \<Rightarrow> client \<Rightarrow> client" where
  "resume (ConnectAwaitM115 cp) Fulfilled s = invoke cp Fulfilled s"
| "resume (ConnectAwaitM115 cp) (Rejected e) s = s"
| "resume (DmAwaitG91 outer distance rapid) Fulfilled s = dm_move outer distance rapid s"
| "resume (DmAwaitG91 outer distance rapid) (Rejected e) s = dm_catch outer e s"
| "resume (DmAwaitMove outer) Fulfilled s = dm_return outer s"
| "resume (DmAwaitMove outer) (Rejected e) s = dm_catch outer e s"
| "resume (DmReturnG90 outer) out s = invoke outer out s"
| "resume (DmAwaitRestore outer error) Fulfilled s = invoke outer (Rejected error) s"
| "resume (DmAwaitRestore outer error) (Rejected restoreError) s =
     invoke outer (Rejected error) (s\<lparr>restoreFailures := restoreFailures s @ [restoreError]\<rparr>)"

definition wake :: "pid \<Rightarrow> client \<Rightarrow> client" where
  "wake p s =
     (case map_of (awaiting s) p of
        None \<Rightarrow> s
      | Some k \<Rightarrow>
          (case result_of s p of
             None \<Rightarrow> s
           | Some out \<Rightarrow> resume k out (s\<lparr>awaiting := filter (\<lambda>a. fst a \<noteq> p) (awaiting s)\<rparr>)))"

subsection \<open>Events\<close>

text \<open>
  What can happen to a client: a call of one of its methods (through the handlers that
  \<^verbatim>\<open>initializeIPC\<close> registers, lines 37 to 75), or an event of the port, of the parser or
  of a timer. A callback runs only if its closure is waiting. After the handler of an
  event has returned, the functions suspended at promises that the handler settled go
  on, in the order of the calls (\<open>step\<close>).
\<close>

datatype event =
    Connect "string option"
  | PortOpen pid
  | PortError pid string
  | Data string
  | WriteDone pid "string option"
  | TimerFires tid
  | CloseDone pid "string option"
  | Disconnect
  | SendCommand string nat
  | SetHome home_axes
  | GoHome
  | SetSpeed jsnum
  | AbsoluteMove axes bool
  | DeltaMove axes bool
  | OnError nat

fun handle :: "event \<Rightarrow> client \<Rightarrow> client" where
  "handle (Connect ctor_err) s = connect ctor_err s"
| "handle (PortOpen cp) s = (if cp \<in> set (portHandlers s) then port_open cp s else s)"
| "handle (PortError cp m) s = (if cp \<in> set (portHandlers s) then port_error cp m s else s)"
| "handle (Data line) s = on_data line s"
| "handle (WriteDone p err) s =
     (case find (\<lambda>w. fst w = p) (writeCallbacks s) of
        None \<Rightarrow> s
      | Some (q, command, timeout) \<Rightarrow>
          write_callback command timeout p err
            (s\<lparr>writeCallbacks := filter (\<lambda>w. fst w \<noteq> p) (writeCallbacks s)\<rparr>))"
| "handle (TimerFires t) s =
     (case map_of (timers s) t of
        None \<Rightarrow> s
      | Some (CommandTimeout command timeout p) \<Rightarrow>
          timeout_fires command timeout p (s\<lparr>timers := filter (\<lambda>e. fst e \<noteq> t) (timers s)\<rparr>)
      | Some (StartupDelay cp) \<Rightarrow>
          startup_fires cp (s\<lparr>timers := filter (\<lambda>e. fst e \<noteq> t) (timers s)\<rparr>))"
| "handle (CloseDone p err) s =
     (if p \<in> set (closeCallbacks s)
      then close_callback p err (s\<lparr>closeCallbacks := filter (\<lambda>q. q \<noteq> p) (closeCallbacks s)\<rparr>)
      else s)"
| "handle Disconnect s = disconnect s"
| "handle (SendCommand command timeout) s = snd (sendCommand command timeout s)"
| "handle (SetHome a) s = snd (setHome a s)"
| "handle GoHome s = snd (goHome s)"
| "handle (SetSpeed speed) s = setSpeed speed s"
| "handle (AbsoluteMove position rapid) s = snd (absoluteMove position rapid s)"
| "handle (DeltaMove distance rapid) s = deltaMove distance rapid s"
| "handle (OnError callback) s = onError callback s"

definition step :: "event \<Rightarrow> client \<Rightarrow> client" where
  "step e s =
     (let s' = handle e s
      in fold wake (map fst (drop (length (invoked s)) (invoked s'))) s')"

definition run :: "event list \<Rightarrow> client \<Rightarrow> client" where
  "run es s = fold step es s"

text \<open>A client after \<^verbatim>\<open>initializeIPC\<close>, \<^verbatim>\<open>connect\<close> and the port's \<^verbatim>\<open>open\<close> event.\<close>

definition opened :: client where
  "opened = run [Connect None, PortOpen 0] (initializeIPC new_client)"

text \<open>
  The same after the start-up timer has fired and \<^verbatim>\<open>M115\<close> was written and answered
  with \<^verbatim>\<open>ok\<close>: connected, nothing pending.
\<close>

definition ready :: client where
  "ready = run [TimerFires 1, WriteDone 2 None, Data ''ok''] opened"

text \<open>A ready client with one command written and waiting for its answer.\<close>

definition pending_G28 :: client where
  "pending_G28 = run [SendCommand ''G28'' 30000, WriteDone 3 None] ready"

text \<open>
  Identifiers are fresh: every closure and call the state knows was made with an
  identifier below \<open>nextId\<close>. A state is well formed when, moreover, the promises that
  its handlers, timers and suspended functions capture are below \<open>nextId\<close>. Every state
  that \<open>run\<close> reaches from \<open>new_client\<close> is well formed (\<open>reachable_fresh_ids\<close> below).
\<close>

definition fresh_ids :: "client \<Rightarrow> bool" where
  "fresh_ids s =
     (list_all (\<lambda>w. fst w < nextId s) (writeCallbacks s) \<and>
      list_all (\<lambda>e. fst e < nextId s) (timers s) \<and>
      list_all (\<lambda>a. fst a < nextId s) (awaiting s) \<and>
      list_all (\<lambda>c. fst c < nextId s) (invoked s) \<and>
      list_all (\<lambda>p. p < nextId s) (moveCompleteCallbacks s) \<and>
      list_all (\<lambda>p. p < nextId s) (closeCallbacks s))"

fun cont_promise :: "cont \<Rightarrow> pid" where
  "cont_promise (ConnectAwaitM115 q) = q"
| "cont_promise (DmAwaitG91 q d r) = q"
| "cont_promise (DmAwaitMove q) = q"
| "cont_promise (DmReturnG90 q) = q"
| "cont_promise (DmAwaitRestore q e) = q"

fun closure_promise :: "timer_closure \<Rightarrow> pid" where
  "closure_promise (CommandTimeout c t q) = q"
| "closure_promise (StartupDelay q) = q"

definition well_formed :: "client \<Rightarrow> bool" where
  "well_formed s =
     (fresh_ids s \<and>
      list_all (\<lambda>p. p < nextId s) (portHandlers s) \<and>
      list_all (\<lambda>a. cont_promise (snd a) < nextId s) (awaiting s) \<and>
      list_all (\<lambda>e. closure_promise (snd e) < nextId s) (timers s))"

section \<open>The interface component\<close>

text \<open>
  The page adds numbers, so here a number is taken by its binary value: \<open>Finite neg m e\<close>
  stands for \<open>m * 2 ^ e\<close>, negated when \<open>neg\<close> holds (there are two zeros). It is a double
  when \<open>m < 2 ^ 53\<close>, \<open>- 1074 \<le> e\<close> and the value is below \<open>2 ^ 1024\<close>. \<open>number_add\<close> is the
  \<^verbatim>\<open>+\<close> of the language on numbers: the exact sum, rounded to the nearest double, a tie
  going to the even one, and to an infinity from \<open>2 ^ 1024\<close> on. Its results have an odd
  \<open>m\<close>, or are the zero \<open>Finite neg 0 0\<close>.
\<close>

datatype double = DNaN | DInfinity bool | Finite bool nat int

function bit_length :: "nat \<Rightarrow> nat" where
  "bit_length n = (if n = 0 then 0 else Suc (bit_length (n div 2)))"
  by pat_completeness auto
termination
  by (relation "measure id") auto

declare bit_length.simps [simp del]

function strip_twos :: "nat \<Rightarrow> int \<Rightarrow> nat \<times> int" where
  "strip_twos m e = (if m \<noteq> 0 \<and> even m then strip_twos (m div 2) (e + 1) else (m, e))"
  by pat_completeness auto
termination
  by (relation "measure fst") auto

declare strip_twos.simps [simp del]

definition round_to_double :: "bool \<Rightarrow> nat \<Rightarrow> int \<Rightarrow> double" where
  "round_to_double neg m e =
     (let excess = max (int (bit_length m) - 53) (- 1074 - e);
          (q, e') =
            (if excess \<le> 0 then (m, e)
             else (let d = 2 ^ nat excess;
                       q = m div d;
                       r = m mod d;
                       half = d div 2
                   in (if half < r \<or> (r = half \<and> odd q) then q + 1 else q, e + excess)))
      in if int (bit_length q) + e' > 1024 then DInfinity neg
         else (let (q, e') = strip_twos q e' in Finite neg q (if q = 0 then 0 else e')))"

definition signed_value :: "bool \<Rightarrow> nat \<Rightarrow> int" where
  "signed_value neg m = (if neg then - int m else int m)"

fun number_add :: "double \<Rightarrow> double \<Rightarrow> double" where
  "number_add DNaN y = DNaN"
| "number_add x DNaN = DNaN"
| "number_add (DInfinity a) (DInfinity b) = (if a = b then DInfinity a else DNaN)"
| "number_add (DInfinity a) (Finite s m e) = DInfinity a"
| "number_add (Finite s m e) (DInfinity b) = DInfinity b"
| "number_add (Finite s1 m1 e1) (Finite s2 m2 e2) =
     (let e = min e1 e2;
          t = signed_value s1 (m1 * 2 ^ nat (e1 - e)) + signed_value s2 (m2 * 2 ^ nat (e2 - e))
      in if t = 0 then Finite (s1 \<and> s2) 0 0
         else round_to_double (t < 0) (nat \<bar>t\<bar>) e)"

text \<open>The number that an integer literal of the script denotes.\<close>

definition double_of_int :: "int \<Rightarrow> double" where
  "double_of_int i = round_to_double (i < 0) (nat \<bar>i\<bar>) 0"

text \<open>
  The script of the positioning page (the component with \<^verbatim>\<open>handleSetHome\<close>,
  \<^verbatim>\<open>handleGoHome\<close>, \<^verbatim>\<open>handleAbsoluteMove\<close> and \<^verbatim>\<open>handleDeltaMove\<close>). Its variables
  \<^verbatim>\<open>position\<close>, \<^verbatim>\<open>speed\<close>, \<^verbatim>\<open>ports\<close>, \<^verbatim>\<open>selectedPort\<close>, \<^verbatim>\<open>isConnected\<close>, \<^verbatim>\<open>logs\<close>,
  \<^verbatim>\<open>absoluteMove\<close> and \<^verbatim>\<open>deltaMove\<close> are the fields below, with the prefix \<open>ui_\<close> since the
  client has names of its own for some of them. The number inputs of the page give numbers, and
  \<^verbatim>\<open>Number\<close> applied to a number is that number. What the binding gives for an input
  left empty is decided by the framework, which is not part of the sources, so the model
  has numbers only. An entry of \<open>ui_logs\<close> is the key of the message, without the time of day and
  the translation.

  The three variables \<^verbatim>\<open>position\<close>, \<^verbatim>\<open>absoluteMove\<close> and \<^verbatim>\<open>deltaMove\<close> hold objects, and
  \<^verbatim>\<open>position = absoluteMove\<close> makes two of them the same object. So the variables hold
  addresses, \<open>objects\<close> is the store, and an object literal takes the next free address.
\<close>

record vec =
  px :: double
  py :: double
  pz :: double

datatype axis = AxisX | AxisY | AxisZ

fun set_axis :: "axis \<Rightarrow> double \<Rightarrow> vec \<Rightarrow> vec" where
  "set_axis AxisX v w = w\<lparr>px := v\<rparr>"
| "set_axis AxisY v w = w\<lparr>py := v\<rparr>"
| "set_axis AxisZ v w = w\<lparr>pz := v\<rparr>"

record page =
  objects :: "nat \<Rightarrow> vec"
  next_object :: nat
  ui_position :: nat
  ui_speed :: double
  ui_ports :: "string list"
  ui_selectedPort :: string
  ui_isConnected :: bool
  ui_logs :: "string list"
  ui_absoluteMove :: nat
  ui_deltaMove :: nat

text \<open>The object literal \<^verbatim>\<open>{ x: 0, y: 0, z: 0 }\<close>.\<close>

definition origin :: vec where
  "origin = \<lparr>px = Finite False 0 0, py = Finite False 0 0, pz = Finite False 0 0\<rparr>"

text \<open>The value of the cached position: the object that \<^verbatim>\<open>position\<close> holds.\<close>

definition position_value :: "page \<Rightarrow> vec" where
  "position_value g = objects g (ui_position g)"

text \<open>The page after its script has run, \<^verbatim>\<open>initPorts\<close> included (lines 4 to 18 and 84).\<close>

definition new_page :: page where
  "new_page =
     \<lparr> objects = (\<lambda>a. origin), next_object = 3, ui_position = 0,
       ui_speed = double_of_int 1000,
       ui_ports = [''COM1'', ''COM2'', ''COM3'', ''/dev/ttyUSB0'', ''/dev/ttyUSB1''],
       ui_selectedPort = [], ui_isConnected = False, ui_logs = [], ui_absoluteMove = 1,
       ui_deltaMove = 2 \<rparr>"

definition new_object :: "vec \<Rightarrow> page \<Rightarrow> page" where
  "new_object v g =
     g\<lparr>objects := (objects g)(next_object g := v), next_object := next_object g + 1\<rparr>"

definition addLog :: "string \<Rightarrow> page \<Rightarrow> page" where
  "addLog m g = g\<lparr>ui_logs := ui_logs g @ [m]\<rparr>"

definition handleConnect :: "page \<Rightarrow> page" where
  "handleConnect g =
     (if ui_selectedPort g = [] then addLog ''error.no_port_selected'' g
      else addLog ''log.connected_to_port'' (g\<lparr>ui_isConnected := True\<rparr>))"

definition handleDisconnect :: "page \<Rightarrow> page" where
  "handleDisconnect g = addLog ''log.disconnected'' (g\<lparr>ui_isConnected := False\<rparr>)"

definition handleSetHome :: "page \<Rightarrow> page" where
  "handleSetHome g =
     addLog ''log.position_set_as_home'' ((new_object origin g)\<lparr>ui_position := next_object g\<rparr>)"

definition handleGoHome :: "page \<Rightarrow> page" where
  "handleGoHome g =
     (let g = addLog ''log.moving_to_home'' g
      in (new_object origin g)\<lparr>ui_position := next_object g\<rparr>)"

definition handleSetSpeed :: "page \<Rightarrow> page" where
  "handleSetSpeed g = addLog ''log.speed_set'' g"

definition handleAbsoluteMove :: "page \<Rightarrow> page" where
  "handleAbsoluteMove g = addLog ''log.absolute_move'' (g\<lparr>ui_position := ui_absoluteMove g\<rparr>)"

definition handleDeltaMove :: "page \<Rightarrow> page" where
  "handleDeltaMove g =
     (let newPosition =
            \<lparr> px = number_add (px (objects g (ui_position g))) (px (objects g (ui_deltaMove g))),
              py = number_add (py (objects g (ui_position g))) (py (objects g (ui_deltaMove g))),
              pz = number_add (pz (objects g (ui_position g))) (pz (objects g (ui_deltaMove g))) \<rparr>
      in addLog ''log.delta_move'' ((new_object newPosition g)\<lparr>ui_position := next_object g\<rparr>))"

text \<open>
  The events of the page. A button calls its handler unless it is disabled: the connect
  button is disabled by \<^verbatim>\<open>isConnected || !selectedPort\<close>, the other buttons by
  \<^verbatim>\<open>!isConnected\<close>. The list of ports is disabled by \<^verbatim>\<open>isConnected\<close> and offers the empty
  name and the names of \<^verbatim>\<open>ports\<close>. The number inputs are never disabled; they write the
  speed, or one coordinate of a form object in place (\<^verbatim>\<open>bind:value={absoluteMove.x}\<close>).
\<close>

datatype ui_event =
    ClickConnect
  | ClickDisconnect
  | ClickSetHome
  | ClickGoHome
  | ClickSetSpeed
  | ClickAbsoluteMove
  | ClickDeltaMove
  | EditSpeed double
  | EditAbsoluteMove axis double
  | EditDeltaMove axis double
  | SelectPort string

fun ui_handle :: "ui_event \<Rightarrow> page \<Rightarrow> page" where
  "ui_handle ClickConnect g =
     (if ui_isConnected g \<or> ui_selectedPort g = [] then g else handleConnect g)"
| "ui_handle ClickDisconnect g = (if ui_isConnected g then handleDisconnect g else g)"
| "ui_handle ClickSetHome g = (if ui_isConnected g then handleSetHome g else g)"
| "ui_handle ClickGoHome g = (if ui_isConnected g then handleGoHome g else g)"
| "ui_handle ClickSetSpeed g = (if ui_isConnected g then handleSetSpeed g else g)"
| "ui_handle ClickAbsoluteMove g = (if ui_isConnected g then handleAbsoluteMove g else g)"
| "ui_handle ClickDeltaMove g = (if ui_isConnected g then handleDeltaMove g else g)"
| "ui_handle (EditSpeed v) g = g\<lparr>ui_speed := v\<rparr>"
| "ui_handle (EditAbsoluteMove ax v) g =
     g\<lparr>objects := (objects g)(ui_absoluteMove g := set_axis ax v (objects g (ui_absoluteMove g)))\<rparr>"
| "ui_handle (EditDeltaMove ax v) g =
     g\<lparr>objects := (objects g)(ui_deltaMove g := set_axis ax v (objects g (ui_deltaMove g)))\<rparr>"
| "ui_handle (SelectPort n) g =
     (if ui_isConnected g then g
      else if n = [] \<or> n \<in> set (ui_ports g) then g\<lparr>ui_selectedPort := n\<rparr>
      else g)"

text \<open>
  The application: the page in the renderer and the client in the main process. No
  handler of the page calls the client, and the client sends the page nothing but error
  messages, which the page does not read; so an event of one leaves the other as it is.
\<close>

record app =
  the_page :: page
  the_client :: client

datatype app_event = Ui ui_event | Printer event

fun app_step :: "app_event \<Rightarrow> app \<Rightarrow> app" where
  "app_step (Ui e) a = a\<lparr>the_page := ui_handle e (the_page a)\<rparr>"
| "app_step (Printer e) a = a\<lparr>the_client := step e (the_client a)\<rparr>"

definition app_run :: "app_event list \<Rightarrow> app \<Rightarrow> app" where
  "app_run es a = fold app_step es a"

definition app_run_page :: "ui_event list \<Rightarrow> page \<Rightarrow> page" where
  "app_run_page es g = fold ui_handle es g"

definition ready_app :: app where
  "ready_app = \<lparr>the_page = new_page, the_client = ready\<rparr>"

section \<open>Properties of the command builder\<close>

lemma digit_char_in: "digit_char d \<in> set ''0123456789''"
proof -
  have "d mod 10 < length ''0123456789''" by simp
  then show ?thesis unfolding digit_char_def by (rule nth_mem)
qed

lemma digit_char_number: "digit_char d \<in> number_chars"
proof -
  have "set ''0123456789'' \<subseteq> number_chars" unfolding number_chars_def by simp
  then show ?thesis using digit_char_in [of d] by (rule subsetD)
qed

lemma digits_number_chars: "set (digits n) \<subseteq> number_chars"
proof (induction n rule: digits.induct)
  case (1 n)
  show ?case
  proof (cases "n < 10")
    case True
    then have "digits n = [digit_char n]" by (simp add: digits.simps [of n])
    then show ?thesis by (simp add: digit_char_number)
  next
    case False
    then have "digits n = digits (n div 10) @ [digit_char n]" by (simp add: digits.simps [of n])
    then show ?thesis using 1 [OF False] by (simp add: digit_char_number)
  qed
qed

lemma exponent_part_chars: "set (exponent_part n) \<subseteq> number_chars"
proof -
  have "CHR ''e'' \<in> number_chars" "CHR ''-'' \<in> number_chars" "CHR ''+'' \<in> number_chars"
    by (simp_all add: number_chars_def)
  then show ?thesis
    by (simp add: exponent_part_def digits_number_chars)
qed


lemma take_number_chars: "set (take j (digits n)) \<subseteq> number_chars"
  using digits_number_chars [of n] set_take_subset [of j "digits n"] by (rule_tac subset_trans)

lemma drop_number_chars: "set (drop j (digits n)) \<subseteq> number_chars"
  using digits_number_chars [of n] set_drop_subset [of j "digits n"] by (rule_tac subset_trans)

lemma zeros_number_chars: "set (replicate j (CHR ''0'')) \<subseteq> number_chars"
proof -
  have "CHR ''0'' \<in> number_chars" by (simp add: number_chars_def)
  then show ?thesis by (cases "j = 0") simp_all
qed

lemma positive_toString_chars: "set (positive_toString s e) \<subseteq> number_chars"
proof -
  obtain s' e' where se: "strip_zeros s e = (s', e')" by (cases "strip_zeros s e")
  have z: "CHR ''0'' \<in> number_chars" "CHR ''.'' \<in> number_chars" by (simp_all add: number_chars_def)
  show ?thesis
    unfolding positive_toString_def se
    by (simp add: Let_def z digits_number_chars take_number_chars drop_number_chars
        zeros_number_chars exponent_part_chars del: set_replicate)
qed


lemma number_toString_chars: "set (number_toString v) \<subseteq> number_chars"
proof (cases v)
  case (Dec m e)
  have "CHR ''0'' \<in> number_chars" "CHR ''-'' \<in> number_chars" by (simp_all add: number_chars_def)
  then show ?thesis using Dec by (simp add: positive_toString_chars)
qed (simp_all add: number_chars_def)

lemma not_in_number: "c \<notin> number_chars \<Longrightarrow> c \<notin> set (number_toString v)"
  using number_toString_chars [of v] by (rule_tac notI) (erule notE, erule subsetD [rotated])

lemma axis_part_mem:
  "c \<notin> number_chars \<Longrightarrow> c \<noteq> CHR '' '' \<Longrightarrow> (c \<in> set (axis_part [l] v)) = (c = l \<and> v \<noteq> None)"
  by (cases v) (simp_all add: axis_part_def not_in_number)

lemma speed_part_mem:
  "c \<notin> number_chars \<Longrightarrow> c \<noteq> CHR '' '' \<Longrightarrow>
   (c \<in> set (speed_part sp)) = (c = CHR ''F'' \<and> greater_than_zero sp)"
  by (auto simp add: speed_part_def not_in_number)

lemma gcode_mem:
  "c \<noteq> CHR ''G'' \<Longrightarrow> c \<notin> number_chars \<Longrightarrow> c \<notin> set (if r then ''G0'' else ''G1'')"
  by (simp add: number_chars_def)

lemma absoluteMove_command_set:
  "set (absoluteMove_command p r sp) =
     set (if r then ''G0'' else ''G1'') \<union> set (axis_part ''X'' (x_of p)) \<union>
     set (axis_part ''Y'' (y_of p)) \<union> set (axis_part ''Z'' (z_of p)) \<union> set (speed_part sp)"
  by (simp add: absoluteMove_command_def Let_def Un_assoc)

lemma deltaMove_command_set:
  "set (deltaMove_command p r sp) =
     set (if r then ''G0'' else ''G1'') \<union> set (axis_part ''X'' (x_of p)) \<union>
     set (axis_part ''Y'' (y_of p)) \<union> set (axis_part ''Z'' (z_of p)) \<union> set (speed_part sp)"
  by (simp add: deltaMove_command_def Let_def Un_assoc)

lemma absoluteMove_command_mem:
  assumes "c \<notin> number_chars" "c \<noteq> CHR '' ''" "c \<noteq> CHR ''G''"
  shows "(c \<in> set (absoluteMove_command p r sp)) =
     (c = CHR ''X'' \<and> x_of p \<noteq> None \<or> c = CHR ''Y'' \<and> y_of p \<noteq> None \<or>
      c = CHR ''Z'' \<and> z_of p \<noteq> None \<or> c = CHR ''F'' \<and> greater_than_zero sp)"
  unfolding absoluteMove_command_set Un_iff axis_part_mem [OF assms(1,2)]
    speed_part_mem [OF assms(1,2)]
  using gcode_mem [OF assms(3) assms(1), of r] by blast

lemma deltaMove_command_mem:
  assumes "c \<notin> number_chars" "c \<noteq> CHR '' ''" "c \<noteq> CHR ''G''"
  shows "(c \<in> set (deltaMove_command p r sp)) =
     (c = CHR ''X'' \<and> x_of p \<noteq> None \<or> c = CHR ''Y'' \<and> y_of p \<noteq> None \<or>
      c = CHR ''Z'' \<and> z_of p \<noteq> None \<or> c = CHR ''F'' \<and> greater_than_zero sp)"
  unfolding deltaMove_command_set Un_iff axis_part_mem [OF assms(1,2)]
    speed_part_mem [OF assms(1,2)]
  using gcode_mem [OF assms(3) assms(1), of r] by blast

lemma letters_not_number:
  "CHR ''X'' \<notin> number_chars" "CHR ''Y'' \<notin> number_chars" "CHR ''Z'' \<notin> number_chars"
  "CHR ''F'' \<notin> number_chars"
  by (simp_all add: number_chars_def)

section \<open>Evaluating the client\<close>

lemmas client_defs =
  run_def step_def wake_def result_of_def times_invoked_def
  connect_def port_open_def port_error_def startup_fires_def disconnect_def close_callback_def
  sendCommand_def write_callback_def timeout_fires_def on_data_def processResponse_def on_ok_def
  on_error_line_def onMoveComplete_def onError_def clear_timeout_def fresh_def invoke_def
  sendErrorToRenderer_def setHome_def goHome_def setSpeed_def absoluteMove_def deltaMove_def
  dm_catch_def dm_move_def dm_return_def suspend_def default_timeout_def
  startsWith_def trim_def is_space_def Let_def initializeIPC_def new_client_def

lemma opened_eq:
  "opened =
     \<lparr> port = True, currentSpeed = Dec 0 0, isConnected = True,
       moveCompleteCallbacks = [], errorCallbacks = [], currentCommand = None,
       timeoutId = None, mainWindow = True, writes = [], writeCallbacks = [],
       closeCallbacks = [], portHandlers = [0], timers = [(1, StartupDelay 0)],
       invoked = [], awaiting = [], rendererErrors = [], errorCallbackCalls = [],
       restoreFailures = [], nextId = 2 \<rparr>"
  by (simp add: opened_def client_defs)

lemma ready_eq:
  "ready =
     \<lparr> port = True, currentSpeed = Dec 0 0, isConnected = True,
       moveCompleteCallbacks = [], errorCallbacks = [], currentCommand = None,
       timeoutId = None, mainWindow = True, writes = [''M115'' @ [CHR 0x0A]],
       writeCallbacks = [], closeCallbacks = [], portHandlers = [0], timers = [],
       invoked = [(2, Fulfilled), (0, Fulfilled)], awaiting = [], rendererErrors = [],
       errorCallbackCalls = [], restoreFailures = [], nextId = 3 \<rparr>"
  by (simp add: ready_def opened_eq client_defs)

lemma fresh_Suc:
  "list_all (\<lambda>w. fst w < (n::nat)) xs \<Longrightarrow> list_all (\<lambda>w. fst w < Suc n) xs"
  by (induction xs) auto

lemma fresh_Suc_plain: "list_all (\<lambda>p. p < (n::nat)) xs \<Longrightarrow> list_all (\<lambda>p. p < Suc n) xs"
  by (induction xs) auto

lemma find_fresh: "list_all (\<lambda>w. fst w < (m::nat)) xs \<Longrightarrow> find (\<lambda>w. fst w = m) xs = None"
  by (induction xs) auto

lemma map_of_fresh: "list_all (\<lambda>w. fst w < (m::nat)) xs \<Longrightarrow> map_of xs m = None"
  by (induction xs) auto

lemma filter_fresh:
  "list_all (\<lambda>w. fst w < (m::nat)) xs \<Longrightarrow> filter (\<lambda>w. fst w \<noteq> m) xs = xs"
  by (induction xs) auto

lemma filter_fresh_plain: "list_all (\<lambda>p. p < (m::nat)) xs \<Longrightarrow> filter (\<lambda>p. p \<noteq> m) xs = xs"
  by (induction xs) auto

lemma find_append_fresh:
  "list_all (\<lambda>w. fst w < (m::nat)) xs \<Longrightarrow>
   find (\<lambda>w. fst w = m) (xs @ ys) = find (\<lambda>w. fst w = m) ys"
  by (induction xs) auto

lemma map_of_append_fresh:
  "list_all (\<lambda>w. fst w < (m::nat)) xs \<Longrightarrow> map_of (xs @ ys) m = map_of ys m"
  by (induction xs) auto

lemmas fresh_simps =
  fresh_Suc fresh_Suc_plain find_fresh map_of_fresh filter_fresh filter_fresh_plain
  find_append_fresh map_of_append_fresh

lemma deltaMove_command_waits:
  "(deltaMove_command d r sp = ''M115'') = False"
  "startsWith (deltaMove_command d r sp) ''M114'' = False"
  by (cases r; simp add: deltaMove_command_def Let_def startsWith_def)+

lemma fixed_commands_wait:
  "startsWith ''G91'' ''M114'' = False" "startsWith ''G90'' ''M114'' = False"
  "startsWith ''ok'' ''Error:'' = False"
  by (simp_all add: startsWith_def)

lemma plus_numerals:
  "n + 3 = Suc (Suc (Suc n))" "n + 4 = Suc (Suc (Suc (Suc n)))"
  "n + 5 = Suc (Suc (Suc (Suc (Suc n))))" "n + 6 = Suc (Suc (Suc (Suc (Suc (Suc n)))))"
  by simp_all

lemma sendErrorToRenderer_field:
  "sendErrorToRenderer m s =
     s\<lparr>rendererErrors := (if mainWindow s then rendererErrors s @ [m] else rendererErrors s)\<rparr>"
  by (simp add: sendErrorToRenderer_def)

lemma trim_ok: "trim ''ok'' = ''ok''"
  by (simp add: trim_def is_space_def)

lemmas trace_defs =
  run_def step_def wake_def result_of_def deltaMove_def dm_catch_def dm_move_def dm_return_def
  suspend_def sendCommand_def write_callback_def timeout_fires_def on_data_def
  processResponse_def on_ok_def on_error_line_def clear_timeout_def onMoveComplete_def
  fresh_def invoke_def sendErrorToRenderer_field default_timeout_def Let_def
  deltaMove_command_waits fixed_commands_wait fresh_simps plus_numerals trim_ok

lemma filter_eq_fresh:
  "list_all (\<lambda>w. fst w < (m::nat)) xs \<Longrightarrow> filter (\<lambda>w. fst w = m) xs = []"
  by (induction xs) auto

lemma pending_G28_eq:
  "pending_G28 =
     \<lparr> port = True, currentSpeed = Dec 0 0, isConnected = True,
       moveCompleteCallbacks = [3], errorCallbacks = [], currentCommand = Some ''G28'',
       timeoutId = Some 4, mainWindow = True,
       writes = [''M115'' @ [CHR 0x0A], ''G28'' @ [CHR 0x0A]],
       writeCallbacks = [], closeCallbacks = [], portHandlers = [0],
       timers = [(4, CommandTimeout ''G28'' 30000 3)],
       invoked = [(2, Fulfilled), (0, Fulfilled)], awaiting = [], rendererErrors = [],
       errorCallbackCalls = [], restoreFailures = [], nextId = 5 \<rparr>"
  by (simp add: pending_G28_def ready_eq client_defs)

lemma fresh_ids_ready: "fresh_ids ready"
  by (simp add: fresh_ids_def ready_eq)

lemma fresh_ids_pending_G28: "fresh_ids pending_G28"
  by (simp add: fresh_ids_def pending_G28_eq)

lemma error_line_not_ok: "startsWith line ''Error:'' \<Longrightarrow> line \<noteq> ''ok''"
  by (auto simp: startsWith_def)

lemma sendCommand_writes:
  "writes (snd (sendCommand c t s)) =
     (if isConnected s \<and> port s then writes s @ [c @ [CHR 0x0A]] else writes s)"
  by (simp add: sendCommand_def Let_def fresh_def invoke_def sendErrorToRenderer_def)

lemma move_prefix_no_F:
  "CHR ''F'' \<notin> set ((if r then ''G0'' else ''G1'') @ axis_part ''X'' a @ axis_part ''Y'' b @ axis_part ''Z'' c)"
  using letters_not_number(4)
  by (simp add: axis_part_mem [where l = "CHR ''X''"] axis_part_mem [where l = "CHR ''Y''"]
      axis_part_mem [where l = "CHR ''Z''"])

text \<open>
  Claim C8. In the text that \<^verbatim>\<open>absoluteMove\<close> builds, and in the text of the motion
  command of \<^verbatim>\<open>deltaMove\<close>, the letter of an axis occurs exactly when that axis is given,
  and the letter \<open>F\<close> of the speed exactly when the current speed is greater than zero;
  the speed parameter, when there is one, is the end of the text and \<open>F\<close> occurs nowhere
  before it. \<^verbatim>\<open>absoluteMove\<close> hands this one text (and a line feed) to the port when the
  client is connected. For \<open>x = 12.5\<close>, \<open>y = -3\<close>, no \<open>z\<close> and speed \<open>1000\<close> the text is
  \<^verbatim>\<open>G1 X12.5 Y-3 F1000\<close>.
\<close>

theorem move_command_axes_and_speed:
  "(CHR ''X'' \<in> set (absoluteMove_command p r sp)) = (x_of p \<noteq> None) \<and>
   (CHR ''Y'' \<in> set (absoluteMove_command p r sp)) = (y_of p \<noteq> None) \<and>
   (CHR ''Z'' \<in> set (absoluteMove_command p r sp)) = (z_of p \<noteq> None) \<and>
   (CHR ''F'' \<in> set (absoluteMove_command p r sp)) = greater_than_zero sp \<and>
   (\<exists>pre. absoluteMove_command p r sp = pre @ speed_part sp \<and> CHR ''F'' \<notin> set pre) \<and>
   (CHR ''X'' \<in> set (deltaMove_command p r sp)) = (x_of p \<noteq> None) \<and>
   (CHR ''Y'' \<in> set (deltaMove_command p r sp)) = (y_of p \<noteq> None) \<and>
   (CHR ''Z'' \<in> set (deltaMove_command p r sp)) = (z_of p \<noteq> None) \<and>
   (CHR ''F'' \<in> set (deltaMove_command p r sp)) = greater_than_zero sp \<and>
   (\<exists>pre. deltaMove_command p r sp = pre @ speed_part sp \<and> CHR ''F'' \<notin> set pre) \<and>
   writes (snd (absoluteMove p r s)) =
     (if isConnected s \<and> port s
      then writes s @ [absoluteMove_command p r (currentSpeed s) @ [CHR 0x0A]] else writes s) \<and>
   absoluteMove_command
     \<lparr>x_of = Some (Dec 125 (- 1)), y_of = Some (Dec (- 3) 0), z_of = None\<rparr> False (Dec 1000 0)
     = ''G1 X12.5 Y-3 F1000'' \<and>
   deltaMove_command
     \<lparr>x_of = Some (Dec 125 (- 1)), y_of = Some (Dec (- 3) 0), z_of = None\<rparr> False (Dec 1000 0)
     = ''G1 X12.5 Y-3 F1000''"
proof -
  have chars: "(CHR ''X'' \<in> set (absoluteMove_command p r sp)) = (x_of p \<noteq> None)"
    "(CHR ''Y'' \<in> set (absoluteMove_command p r sp)) = (y_of p \<noteq> None)"
    "(CHR ''Z'' \<in> set (absoluteMove_command p r sp)) = (z_of p \<noteq> None)"
    "(CHR ''F'' \<in> set (absoluteMove_command p r sp)) = greater_than_zero sp"
    "(CHR ''X'' \<in> set (deltaMove_command p r sp)) = (x_of p \<noteq> None)"
    "(CHR ''Y'' \<in> set (deltaMove_command p r sp)) = (y_of p \<noteq> None)"
    "(CHR ''Z'' \<in> set (deltaMove_command p r sp)) = (z_of p \<noteq> None)"
    "(CHR ''F'' \<in> set (deltaMove_command p r sp)) = greater_than_zero sp"
    by (simp_all add: absoluteMove_command_mem deltaMove_command_mem letters_not_number)
  have "absoluteMove_command p r sp =
      ((if r then ''G0'' else ''G1'') @ axis_part ''X'' (x_of p) @ axis_part ''Y'' (y_of p) @
        axis_part ''Z'' (z_of p)) @ speed_part sp"
    by (simp add: absoluteMove_command_def Let_def)
  then have trail_a: "\<exists>pre. absoluteMove_command p r sp = pre @ speed_part sp \<and> CHR ''F'' \<notin> set pre"
    using move_prefix_no_F by blast
  have "deltaMove_command p r sp =
      ((if r then ''G0'' else ''G1'') @ axis_part ''X'' (x_of p) @ axis_part ''Y'' (y_of p) @
        axis_part ''Z'' (z_of p)) @ speed_part sp"
    by (simp add: deltaMove_command_def Let_def)
  then have trail_d: "\<exists>pre. deltaMove_command p r sp = pre @ speed_part sp \<and> CHR ''F'' \<notin> set pre"
    using move_prefix_no_F by blast
  have wr: "writes (snd (absoluteMove p r s)) =
     (if isConnected s \<and> port s
      then writes s @ [absoluteMove_command p r (currentSpeed s) @ [CHR 0x0A]] else writes s)"
    unfolding absoluteMove_def by (rule sendCommand_writes)
  have ex_a: "absoluteMove_command
     \<lparr>x_of = Some (Dec 125 (- 1)), y_of = Some (Dec (- 3) 0), z_of = None\<rparr> False (Dec 1000 0)
     = ''G1 X12.5 Y-3 F1000''"
    by code_simp
  have ex_d: "deltaMove_command
     \<lparr>x_of = Some (Dec 125 (- 1)), y_of = Some (Dec (- 3) 0), z_of = None\<rparr> False (Dec 1000 0)
     = ''G1 X12.5 Y-3 F1000''"
    by code_simp
  show ?thesis
    using chars trail_a trail_d wr ex_a ex_d by (intro conjI)
qed

theorem move_command_axes_and_speed_witness:
  "CHR ''X'' \<in> set (absoluteMove_command
      \<lparr>x_of = Some (Dec 125 (- 1)), y_of = Some (Dec (- 3) 0), z_of = None\<rparr> False (Dec 1000 0)) \<and>
   CHR ''Z'' \<notin> set (deltaMove_command
      \<lparr>x_of = Some (Dec 125 (- 1)), y_of = Some (Dec (- 3) 0), z_of = None\<rparr> False (Dec 1000 0)) \<and>
   CHR ''F'' \<notin> set (absoluteMove_command
      \<lparr>x_of = Some (Dec 125 (- 1)), y_of = Some (Dec (- 3) 0), z_of = None\<rparr> True (Dec 0 0))"
  using move_command_axes_and_speed
    [of "\<lparr>x_of = Some (Dec 125 (- 1)), y_of = Some (Dec (- 3) 0), z_of = None\<rparr>" False "Dec 1000 0"]
    move_command_axes_and_speed
    [of "\<lparr>x_of = Some (Dec 125 (- 1)), y_of = Some (Dec (- 3) 0), z_of = None\<rparr>" True "Dec 0 0"]
  by simp

section \<open>Freshness of identifiers is invariant\<close>

lemma fold_invoke:
  "fold (\<lambda>callback. invoke callback out) cbs s =
     s\<lparr>invoked := invoked s @ map (\<lambda>p. (p, out)) cbs\<rparr>"
  by (induction cbs arbitrary: s) (simp_all add: invoke_def)

lemma wf_iff:
  "well_formed s =
     ((\<forall>w\<in>set (writeCallbacks s). fst w < nextId s) \<and>
      (\<forall>e\<in>set (timers s). fst e < nextId s \<and> closure_promise (snd e) < nextId s) \<and>
      (\<forall>a\<in>set (awaiting s). fst a < nextId s \<and> cont_promise (snd a) < nextId s) \<and>
      (\<forall>c\<in>set (invoked s). fst c < nextId s) \<and>
      (\<forall>p\<in>set (moveCompleteCallbacks s). p < nextId s) \<and>
      (\<forall>p\<in>set (closeCallbacks s). p < nextId s) \<and>
      (\<forall>p\<in>set (portHandlers s). p < nextId s))"
  by (auto simp: well_formed_def fresh_ids_def list_all_iff)

lemma wf_sendCommand: "well_formed s \<Longrightarrow> well_formed (snd (sendCommand c t s))"
  by (cases s) (auto simp: wf_iff sendCommand_def Let_def fresh_def invoke_def sendErrorToRenderer_field less_Suc_eq)

lemma sendCommand_promise:
  "sendCommand c t s = (Pending p, s') \<Longrightarrow> p < nextId s' \<and> nextId s \<le> nextId s'"
  "sendCommand c t s = (AlreadyRejected p e, s') \<Longrightarrow> p < nextId s' \<and> nextId s \<le> nextId s'"
  by (auto simp: sendCommand_def Let_def fresh_def invoke_def sendErrorToRenderer_field split: if_splits)


lemmas wf_unfold =
  wf_iff sendCommand_def Let_def fresh_def invoke_def sendErrorToRenderer_field less_Suc_eq
  suspend_def dm_catch_def dm_move_def dm_return_def deltaMove_def default_timeout_def

lemma wf_dm_catch: "well_formed s \<Longrightarrow> outer < nextId s \<Longrightarrow> well_formed (dm_catch outer e s)"
  by (cases s) (auto simp: wf_unfold)

lemma wf_dm_move: "well_formed s \<Longrightarrow> outer < nextId s \<Longrightarrow> well_formed (dm_move outer d r s)"
  by (cases s) (auto simp: wf_unfold)

lemma wf_dm_return: "well_formed s \<Longrightarrow> outer < nextId s \<Longrightarrow> well_formed (dm_return outer s)"
  by (cases s) (auto simp: wf_unfold)

lemma wf_deltaMove: "well_formed s \<Longrightarrow> well_formed (deltaMove d r s)"
  by (cases s) (auto simp: wf_unfold)

lemma wf_invoke: "well_formed s \<Longrightarrow> p < nextId s \<Longrightarrow> well_formed (invoke p out s)"
  by (cases s) (auto simp: wf_unfold)

lemma wf_restore_log:
  "well_formed s \<Longrightarrow> well_formed (s\<lparr>restoreFailures := x\<rparr>)"
  by (cases s) (auto simp: wf_unfold)

lemma nextId_restore_log: "nextId (s\<lparr>restoreFailures := x\<rparr>) = nextId s"
  by simp

lemma wf_resume:
  "well_formed s \<Longrightarrow> cont_promise k < nextId s \<Longrightarrow> well_formed (resume k out s)"
  by (cases k; cases out)
    (simp_all add: wf_dm_catch wf_dm_move wf_dm_return wf_invoke wf_restore_log)

lemma wf_drop_awaiting:
  "well_formed s \<Longrightarrow> well_formed (s\<lparr>awaiting := filter P (awaiting s)\<rparr>)"
  by (cases s) (auto simp: wf_iff)

lemma wf_wake: "well_formed s \<Longrightarrow> well_formed (wake p s)"
proof -
  assume w: "well_formed s"
  show ?thesis
  proof (cases "map_of (awaiting s) p")
    case None
    then show ?thesis using w by (simp add: wake_def)
  next
    case (Some k)
    then have "(p, k) \<in> set (awaiting s)" by (rule map_of_SomeD)
    then have b: "cont_promise k < nextId s" using w by (auto simp: wf_iff)
    show ?thesis
    proof (cases "result_of s p")
      case None
      then show ?thesis using w Some by (simp add: wake_def)
    next
      case (Some out)
      have "well_formed (resume k out (s\<lparr>awaiting := filter (\<lambda>a. fst a \<noteq> p) (awaiting s)\<rparr>))"
        using wf_drop_awaiting [OF w] b by (intro wf_resume) simp_all
      then show ?thesis using \<open>map_of (awaiting s) p = Some k\<close> Some by (simp add: wake_def)
    qed
  qed
qed

lemma wf_fold_wake: "well_formed s \<Longrightarrow> well_formed (fold wake ps s)"
  by (induction ps arbitrary: s) (simp_all add: wf_wake)


lemma find_SomeD: "find P xs = Some x \<Longrightarrow> x \<in> set xs \<and> P x"
  by (induction xs) (auto split: if_splits)

lemma wf_handle: "well_formed s \<Longrightarrow> well_formed (handle e s)"
proof (cases e)
  case (Connect ctor_err)
  assume "well_formed s"
  then show ?thesis using Connect
    by (cases s; cases ctor_err) (auto simp: wf_unfold connect_def)
next
  case (PortOpen cp)
  assume "well_formed s"
  then show ?thesis using PortOpen
    by (cases s) (auto simp: wf_unfold port_open_def)
next
  case (PortError cp m)
  assume "well_formed s"
  then show ?thesis using PortError
    by (cases s) (auto simp: wf_unfold port_error_def)
next
  case (Data line)
  assume "well_formed s"
  then show ?thesis using Data
    by (cases s)
      (auto simp: wf_unfold on_data_def processResponse_def on_ok_def on_error_line_def
        clear_timeout_def fold_invoke split: option.splits)
next
  case (WriteDone p err)
  assume w: "well_formed s"
  show ?thesis
  proof (cases "find (\<lambda>w. fst w = p) (writeCallbacks s)")
    case None
    then show ?thesis using w WriteDone by simp
  next
    case (Some x)
    obtain q c t where x: "x = (q, c, t)" by (cases x)
    have "x \<in> set (writeCallbacks s)" "fst x = p" using find_SomeD [OF Some] by simp_all
    then have "p < nextId s" using w by (auto simp: wf_iff)
    then show ?thesis using w WriteDone Some x
      by (cases s; cases err)
        (auto simp: wf_unfold write_callback_def onMoveComplete_def)
  qed
next
  case (TimerFires t)
  assume w: "well_formed s"
  show ?thesis
  proof (cases "map_of (timers s) t")
    case None
    then show ?thesis using w TimerFires by simp
  next
    case (Some k)
    then have "(t, k) \<in> set (timers s)" by (rule map_of_SomeD)
    then have b: "closure_promise k < nextId s" using w by (auto simp: wf_iff)
    show ?thesis
    proof (cases k)
      case (CommandTimeout c d p)
      then show ?thesis using w TimerFires Some b
        by (cases s) (auto simp: wf_unfold timeout_fires_def)
    next
      case (StartupDelay cp)
      then show ?thesis using w TimerFires Some b
        by (cases s) (auto simp: wf_unfold startup_fires_def)
    qed
  qed
next
  case (CloseDone p err)
  assume "well_formed s"
  then show ?thesis using CloseDone
    by (cases s; cases err) (auto simp: wf_unfold close_callback_def)
next
  case Disconnect
  assume "well_formed s"
  then show ?thesis using Disconnect
    by (cases s) (auto simp: wf_unfold disconnect_def clear_timeout_def split: option.splits)
next
  case (SendCommand c t)
  assume "well_formed s"
  then show ?thesis using SendCommand by (simp add: wf_sendCommand)
next
  case (SetHome a)
  assume "well_formed s"
  then show ?thesis using SetHome by (simp add: wf_sendCommand setHome_def)
next
  case GoHome
  assume "well_formed s"
  then show ?thesis using GoHome by (simp add: wf_sendCommand goHome_def)
next
  case (SetSpeed speed)
  assume "well_formed s"
  then show ?thesis using SetSpeed
    by (cases s) (auto simp: wf_unfold setSpeed_def)
next
  case (AbsoluteMove position rapid)
  assume "well_formed s"
  then show ?thesis using AbsoluteMove by (simp add: wf_sendCommand absoluteMove_def)
next
  case (DeltaMove distance rapid)
  assume "well_formed s"
  then show ?thesis using DeltaMove by (simp add: wf_deltaMove)
next
  case (OnError callback)
  assume "well_formed s"
  then show ?thesis using OnError
    by (cases s) (auto simp: wf_unfold onError_def)
qed

lemma wf_step: "well_formed s \<Longrightarrow> well_formed (step e s)"
  by (simp add: step_def Let_def wf_handle wf_fold_wake)

lemma wf_run: "well_formed s \<Longrightarrow> well_formed (run es s)"
  unfolding run_def by (induction es arbitrary: s) (simp_all add: wf_step)

lemma wf_new_client: "well_formed new_client"
  by (simp add: well_formed_def fresh_ids_def new_client_def)

lemma reachable_fresh_ids: "fresh_ids (run es (initializeIPC new_client)) \<and> fresh_ids (run es new_client)"
proof -
  have "well_formed (initializeIPC new_client)"
    by (simp add: well_formed_def fresh_ids_def new_client_def initializeIPC_def)
  then show ?thesis using wf_run wf_new_client by (simp add: well_formed_def)
qed

section \<open>The command correlator\<close>

text \<open>
  Claim C1. The claim: for a command issued while connected and with nothing pending,
  the continuation is called exactly once, whichever of the completion line, the error
  line and the timeout comes first. The code, from every connected state with fresh
  identifiers and no callback registered, for a command \<open>c\<close> that waits for \<^verbatim>\<open>ok\<close>
  (promise \<open>nextId s\<close>, timer \<open>nextId s + 1\<close>): the continuation has been called once after
  the line \<^verbatim>\<open>ok\<close>, once after the timeout, once when both come in either order, and once
  when the write fails. After a line that begins with \<^verbatim>\<open>Error:\<close> it has not been called
  at all, and the timer is cancelled, so that no timeout will call it either; its
  \<^verbatim>\<open>resolve\<close> stays in \<open>moveCompleteCallbacks\<close>, and a later line \<^verbatim>\<open>ok\<close> fulfils it.
\<close>

theorem continuation_calls_by_outcome:
  assumes "fresh_ids s" "isConnected s" "port s" "moveCompleteCallbacks s = []"
    and "\<not> (c = ''M115'' \<or> startsWith c ''M114'')"
  shows
    "times_invoked (run [SendCommand c t, WriteDone (nextId s) None, Data ''ok''] s) (nextId s) = 1 \<and>
     times_invoked (run [SendCommand c t, WriteDone (nextId s) None, TimerFires (nextId s + 1)] s)
       (nextId s) = 1 \<and>
     times_invoked (run [SendCommand c t, WriteDone (nextId s) None, Data ''ok'',
       TimerFires (nextId s + 1)] s) (nextId s) = 1 \<and>
     times_invoked (run [SendCommand c t, WriteDone (nextId s) None, TimerFires (nextId s + 1),
       Data ''ok''] s) (nextId s) = 1 \<and>
     times_invoked (run [SendCommand c t, WriteDone (nextId s) (Some m)] s) (nextId s) = 1 \<and>
     (startsWith (trim line) ''Error:'' \<longrightarrow>
        times_invoked (run [SendCommand c t, WriteDone (nextId s) None, Data line] s) (nextId s) = 0 \<and>
        timers (run [SendCommand c t, WriteDone (nextId s) None, Data line] s) = timers s \<and>
        currentCommand (run [SendCommand c t, WriteDone (nextId s) None, Data line] s) = None \<and>
        moveCompleteCallbacks (run [SendCommand c t, WriteDone (nextId s) None, Data line] s) =
          [nextId s] \<and>
        result_of (run [SendCommand c t, WriteDone (nextId s) None, Data line, Data ''ok''] s)
          (nextId s) = Some Fulfilled)"
proof -
  have pos:
    "times_invoked (run [SendCommand c t, WriteDone (nextId s) None, Data ''ok''] s) (nextId s) = 1"
    "times_invoked (run [SendCommand c t, WriteDone (nextId s) None, TimerFires (nextId s + 1)] s)
       (nextId s) = 1"
    "times_invoked (run [SendCommand c t, WriteDone (nextId s) None, Data ''ok'',
       TimerFires (nextId s + 1)] s) (nextId s) = 1"
    "times_invoked (run [SendCommand c t, WriteDone (nextId s) None, TimerFires (nextId s + 1),
       Data ''ok''] s) (nextId s) = 1"
    "times_invoked (run [SendCommand c t, WriteDone (nextId s) (Some m)] s) (nextId s) = 1"
    using assms unfolding fresh_ids_def
    by (cases s; simp add: times_invoked_def trace_defs filter_eq_fresh del: map_of_append)+
  have neg:
    "times_invoked (run [SendCommand c t, WriteDone (nextId s) None, Data line] s) (nextId s) = 0 \<and>
     timers (run [SendCommand c t, WriteDone (nextId s) None, Data line] s) = timers s \<and>
     currentCommand (run [SendCommand c t, WriteDone (nextId s) None, Data line] s) = None \<and>
     moveCompleteCallbacks (run [SendCommand c t, WriteDone (nextId s) None, Data line] s) =
       [nextId s] \<and>
     result_of (run [SendCommand c t, WriteDone (nextId s) None, Data line, Data ''ok''] s)
       (nextId s) = Some Fulfilled"
    if e: "startsWith (trim line) ''Error:''"
  proof -
    have "trim line \<noteq> ''ok''" using e by (rule error_line_not_ok)
    then show ?thesis
      using assms e unfolding fresh_ids_def
      by (cases s) (simp add: times_invoked_def trace_defs filter_eq_fresh del: map_of_append)
  qed
  show ?thesis using pos neg by blast
qed

theorem continuation_calls_by_outcome_witness:
  "fresh_ids ready \<and> isConnected ready \<and> port ready \<and> moveCompleteCallbacks ready = [] \<and>
   \<not> (''G28'' = ''M115'' \<or> startsWith ''G28'' ''M114'') \<and>
   startsWith (trim ''Error: limit hit'') ''Error:'' \<and>
   times_invoked (run [SendCommand ''G28'' 30000, WriteDone 3 None, Data ''ok''] ready) 3 = 1 \<and>
   times_invoked (run [SendCommand ''G28'' 30000, WriteDone 3 None, TimerFires 4] ready) 3 = 1 \<and>
   times_invoked (run [SendCommand ''G28'' 30000, WriteDone 3 None, Data ''Error: limit hit''] ready) 3 = 0 \<and>
   timers (run [SendCommand ''G28'' 30000, WriteDone 3 None, Data ''Error: limit hit''] ready) = [] \<and>
   moveCompleteCallbacks (run [SendCommand ''G28'' 30000, WriteDone 3 None,
      Data ''Error: limit hit''] ready) = [3] \<and>
   result_of (run [SendCommand ''G28'' 30000, WriteDone 3 None, Data ''Error: limit hit'',
      SendCommand ''G1 X1'' 30000, WriteDone 5 None, Data ''ok''] ready) 3 = Some Fulfilled"
proof -
  have a: "fresh_ids ready" "isConnected ready" "port ready" "moveCompleteCallbacks ready = []"
    by (simp_all add: fresh_ids_def ready_eq)
  have b: "\<not> (''G28'' = ''M115'' \<or> startsWith ''G28'' ''M114'')"
    by (simp add: startsWith_def)
  have c: "startsWith (trim ''Error: limit hit'') ''Error:''"
    by (simp add: trim_def is_space_def startsWith_def)
  have n: "nextId ready = 3" "timers ready = []"
    by (simp_all add: ready_eq)
  have later: "result_of (run [SendCommand ''G28'' 30000, WriteDone 3 None, Data ''Error: limit hit'',
      SendCommand ''G1 X1'' 30000, WriteDone 5 None, Data ''ok''] ready) 3 = Some Fulfilled"
    by (simp add: ready_eq client_defs)
  show ?thesis
    using a b c later
      continuation_calls_by_outcome [OF a b, of 30000 "''boom''" "''Error: limit hit''"]
    by (simp add: n)
qed

text \<open>
  Claim C2. The claim: a second command issued while one is pending fails with
  \<^verbatim>\<open>Busy\<close>, is not written, and does not disturb the first. The code at \<open>pending_G28\<close>,
  where \<^verbatim>\<open>G28\<close> is pending: a second command \<^verbatim>\<open>G1 X1\<close> is written to the port, takes
  the slot \<open>currentCommand\<close>, and its promise (5) is not rejected; and once it holds the
  slot, the timer of the first command (4) fires without any effect, so the first
  command (3) is not rejected by its timeout.
\<close>

theorem second_command_not_refused:
  "currentCommand pending_G28 = Some ''G28'' \<and>
   writes (step (SendCommand ''G1 X1'' 30000) pending_G28) =
     [''M115'' @ [CHR 0x0A], ''G28'' @ [CHR 0x0A], ''G1 X1'' @ [CHR 0x0A]] \<and>
   currentCommand (step (SendCommand ''G1 X1'' 30000) pending_G28) = Some ''G1 X1'' \<and>
   result_of (step (SendCommand ''G1 X1'' 30000) pending_G28) 5 = None \<and>
   result_of (run [SendCommand ''G1 X1'' 30000, WriteDone 5 None, TimerFires 4] pending_G28) 3 = None \<and>
   map_of (timers (run [SendCommand ''G1 X1'' 30000, WriteDone 5 None, TimerFires 4] pending_G28)) 4 = None"
  by (simp add: pending_G28_eq client_defs)

text \<open>
  Claim C2 as amended, for a command that waits for \<^verbatim>\<open>ok\<close>: one that is neither
  \<^verbatim>\<open>M115\<close> nor begins with \<^verbatim>\<open>M114\<close>. In every connected state, also one with a command
  pending, \<^verbatim>\<open>sendCommand\<close> of such a command does not fail: the text and a line feed are
  handed to the port, the command takes the slot \<open>currentCommand\<close>, and no continuation
  is called. The callbacks and timers already registered stay as they are; when the
  write is acknowledged the new continuation is appended after them, a new timer is
  armed, and \<open>timeoutId\<close> names the new timer only.
\<close>

theorem second_command_while_pending:
  assumes "fresh_ids s" "isConnected s" "port s" "\<not> (c = ''M115'' \<or> startsWith c ''M114'')"
  shows
    "writes (step (SendCommand c t) s) = writes s @ [c @ [CHR 0x0A]] \<and>
     currentCommand (step (SendCommand c t) s) = Some c \<and>
     invoked (step (SendCommand c t) s) = invoked s \<and>
     moveCompleteCallbacks (step (SendCommand c t) s) = moveCompleteCallbacks s \<and>
     timers (step (SendCommand c t) s) = timers s \<and>
     timeoutId (step (SendCommand c t) s) = timeoutId s \<and>
     invoked (run [SendCommand c t, WriteDone (nextId s) None] s) = invoked s \<and>
     moveCompleteCallbacks (run [SendCommand c t, WriteDone (nextId s) None] s) =
       moveCompleteCallbacks s @ [nextId s] \<and>
     timers (run [SendCommand c t, WriteDone (nextId s) None] s) =
       timers s @ [(nextId s + 1, CommandTimeout c t (nextId s))] \<and>
     timeoutId (run [SendCommand c t, WriteDone (nextId s) None] s) = Some (nextId s + 1)"
  using assms unfolding fresh_ids_def
  by (cases s)
    (simp add: run_def step_def wake_def result_of_def sendCommand_def write_callback_def
      onMoveComplete_def fresh_def invoke_def Let_def fresh_simps del: map_of_append)

theorem second_command_while_pending_witness:
  "fresh_ids pending_G28 \<and> isConnected pending_G28 \<and> port pending_G28 \<and>
   currentCommand pending_G28 = Some ''G28'' \<and>
   writes (step (SendCommand ''G1 X1'' 30000) pending_G28) =
     [''M115'' @ [CHR 0x0A], ''G28'' @ [CHR 0x0A], ''G1 X1'' @ [CHR 0x0A]] \<and>
   currentCommand (step (SendCommand ''G1 X1'' 30000) pending_G28) = Some ''G1 X1'' \<and>
   moveCompleteCallbacks (run [SendCommand ''G1 X1'' 30000, WriteDone 5 None] pending_G28) = [3, 5] \<and>
   timeoutId (run [SendCommand ''G1 X1'' 30000, WriteDone 5 None] pending_G28) = Some 6"
proof -
  have a: "fresh_ids pending_G28" by (rule fresh_ids_pending_G28)
  have b: "isConnected pending_G28" "port pending_G28" by (simp_all add: pending_G28_eq)
  have c: "\<not> (''G1 X1'' = ''M115'' \<or> startsWith ''G1 X1'' ''M114'')" by (simp add: startsWith_def)
  have n: "nextId pending_G28 = 5" "currentCommand pending_G28 = Some ''G28''"
    "writes pending_G28 = [''M115'' @ [CHR 0x0A], ''G28'' @ [CHR 0x0A]]"
    "moveCompleteCallbacks pending_G28 = [3]"
    by (simp_all add: pending_G28_eq)
  show ?thesis
    using a b second_command_while_pending [OF a b c, of 30000]
    by (simp add: n)
qed

text \<open>
  The two commands left out above, \<^verbatim>\<open>M115\<close> and those that begin with \<^verbatim>\<open>M114\<close>, are not
  refused either: they are written and take the slot in the same way, and the
  acknowledgement of the write fulfils their promise, with no callback and no timer
  added.
\<close>

lemma query_command_while_pending:
  assumes "fresh_ids s" "isConnected s" "port s" "c = ''M115'' \<or> startsWith c ''M114''"
  shows
    "writes (step (SendCommand c t) s) = writes s @ [c @ [CHR 0x0A]] \<and>
     currentCommand (step (SendCommand c t) s) = Some c \<and>
     invoked (step (SendCommand c t) s) = invoked s \<and>
     moveCompleteCallbacks (step (SendCommand c t) s) = moveCompleteCallbacks s \<and>
     timers (step (SendCommand c t) s) = timers s \<and>
     timeoutId (step (SendCommand c t) s) = timeoutId s \<and>
     invoked (run [SendCommand c t, WriteDone (nextId s) None] s) =
       invoked s @ [(nextId s, Fulfilled)] \<and>
     moveCompleteCallbacks (run [SendCommand c t, WriteDone (nextId s) None] s) =
       moveCompleteCallbacks s \<and>
     timers (run [SendCommand c t, WriteDone (nextId s) None] s) = timers s \<and>
     timeoutId (run [SendCommand c t, WriteDone (nextId s) None] s) = timeoutId s \<and>
     currentCommand (run [SendCommand c t, WriteDone (nextId s) None] s) = Some c"
  using assms unfolding fresh_ids_def
  by (cases s)
    (simp add: run_def step_def wake_def result_of_def sendCommand_def write_callback_def
      onMoveComplete_def fresh_def invoke_def Let_def fresh_simps del: map_of_append)

text \<open>
  Claim C3. The claim: a line that begins with \<^verbatim>\<open>Error:\<close> and arrives while a command is
  pending rejects that command's continuation with the message. What
  \<^verbatim>\<open>processResponse\<close> does with such a line, in every state: the message (the text after
  the prefix, trimmed) goes to the renderer and to the callbacks registered with
  \<^verbatim>\<open>onError\<close>, the timer is cancelled and the slot cleared; but no continuation is
  called, and the \<^verbatim>\<open>resolve\<close> of the pending command stays in \<open>moveCompleteCallbacks\<close>.
\<close>

theorem error_line_leaves_continuation:
  assumes "startsWith line ''Error:''"
  shows
    "invoked (processResponse line s) = invoked s \<and>
     moveCompleteCallbacks (processResponse line s) = moveCompleteCallbacks s \<and>
     currentCommand (processResponse line s) = None \<and>
     timeoutId (processResponse line s) = None \<and>
     timers (processResponse line s) =
       (case timeoutId s of None \<Rightarrow> timers s | Some t \<Rightarrow> filter (\<lambda>e. fst e \<noteq> t) (timers s)) \<and>
     rendererErrors (processResponse line s) =
       (if mainWindow s then rendererErrors s @ [trim (drop 6 line)] else rendererErrors s) \<and>
     errorCallbackCalls (processResponse line s) =
       errorCallbackCalls s @ map (\<lambda>callback. (callback, trim (drop 6 line))) (errorCallbacks s)"
  using assms error_line_not_ok [OF assms]
  by (cases s)
    (simp add: processResponse_def on_error_line_def clear_timeout_def sendErrorToRenderer_def
      Let_def split: option.split)

theorem error_line_leaves_continuation_witness:
  "startsWith ''Error: limit hit'' ''Error:'' \<and>
   invoked (processResponse ''Error: limit hit'' pending_G28) = invoked pending_G28 \<and>
   moveCompleteCallbacks (processResponse ''Error: limit hit'' pending_G28) = [3] \<and>
   timers (processResponse ''Error: limit hit'' pending_G28) = [] \<and>
   rendererErrors (processResponse ''Error: limit hit'' pending_G28) = [''limit hit'']"
proof -
  have a: "startsWith ''Error: limit hit'' ''Error:''" by (simp add: startsWith_def)
  show ?thesis
    using a error_line_leaves_continuation [OF a, of pending_G28]
    by (simp add: pending_G28_eq trim_def is_space_def)
qed

text \<open>
  Claim C10. The guard of the timeout compares the text of the command. From every
  connected state with fresh identifiers: a command \<open>c\<close> that waits for \<^verbatim>\<open>ok\<close> is issued
  with timeout \<open>d1\<close> and again with timeout \<open>d2\<close>, and both writes are acknowledged; the
  later issuance then holds the slot. When the timer of the earlier issuance fires, the
  guard passes, the slot is cleared, and the earlier promise is rejected with the timeout
  error that carries \<open>c\<close> and \<open>d1\<close>; the continuation of the later issuance stays
  registered. And in every state \<open>s'\<close>: a timer armed for a command \<open>c'\<close> that fires while
  the slot holds the text \<open>c'\<close>, whichever issuance put it there, clears the slot and
  rejects the promise the timer was armed for, with that issuance's duration.
\<close>

theorem stale_timer_rejects_later_issuance:
  assumes "fresh_ids s" "isConnected s" "port s" "\<not> (c = ''M115'' \<or> startsWith c ''M114'')"
  shows
    "currentCommand (run [SendCommand c d1, WriteDone (nextId s) None,
        SendCommand c d2, WriteDone (nextId s + 2) None] s) = Some c \<and>
     timers (run [SendCommand c d1, WriteDone (nextId s) None,
        SendCommand c d2, WriteDone (nextId s + 2) None] s) =
       timers s @ [(nextId s + 1, CommandTimeout c d1 (nextId s)),
                   (nextId s + 3, CommandTimeout c d2 (nextId s + 2))] \<and>
     moveCompleteCallbacks (run [SendCommand c d1, WriteDone (nextId s) None,
        SendCommand c d2, WriteDone (nextId s + 2) None] s) =
       moveCompleteCallbacks s @ [nextId s, nextId s + 2] \<and>
     currentCommand (run [SendCommand c d1, WriteDone (nextId s) None,
        SendCommand c d2, WriteDone (nextId s + 2) None, TimerFires (nextId s + 1)] s) = None \<and>
     invoked (run [SendCommand c d1, WriteDone (nextId s) None,
        SendCommand c d2, WriteDone (nextId s + 2) None, TimerFires (nextId s + 1)] s) =
       invoked s @ [(nextId s, Rejected (TimedOut c d1))] \<and>
     moveCompleteCallbacks (run [SendCommand c d1, WriteDone (nextId s) None,
        SendCommand c d2, WriteDone (nextId s + 2) None, TimerFires (nextId s + 1)] s) =
       moveCompleteCallbacks s @ [nextId s + 2] \<and>
     (map_of (timers s') tm = Some (CommandTimeout c' d p) \<and> currentCommand s' = Some c' \<longrightarrow>
        currentCommand (handle (TimerFires tm) s') = None \<and>
        invoked (handle (TimerFires tm) s') = invoked s' @ [(p, Rejected (TimedOut c' d))] \<and>
        moveCompleteCallbacks (handle (TimerFires tm) s') =
          filter (\<lambda>cb. cb \<noteq> p) (moveCompleteCallbacks s'))"
proof -
  have trace:
    "currentCommand (run [SendCommand c d1, WriteDone (nextId s) None,
        SendCommand c d2, WriteDone (nextId s + 2) None] s) = Some c \<and>
     timers (run [SendCommand c d1, WriteDone (nextId s) None,
        SendCommand c d2, WriteDone (nextId s + 2) None] s) =
       timers s @ [(nextId s + 1, CommandTimeout c d1 (nextId s)),
                   (nextId s + 3, CommandTimeout c d2 (nextId s + 2))] \<and>
     moveCompleteCallbacks (run [SendCommand c d1, WriteDone (nextId s) None,
        SendCommand c d2, WriteDone (nextId s + 2) None] s) =
       moveCompleteCallbacks s @ [nextId s, nextId s + 2] \<and>
     currentCommand (run [SendCommand c d1, WriteDone (nextId s) None,
        SendCommand c d2, WriteDone (nextId s + 2) None, TimerFires (nextId s + 1)] s) = None \<and>
     invoked (run [SendCommand c d1, WriteDone (nextId s) None,
        SendCommand c d2, WriteDone (nextId s + 2) None, TimerFires (nextId s + 1)] s) =
       invoked s @ [(nextId s, Rejected (TimedOut c d1))] \<and>
     moveCompleteCallbacks (run [SendCommand c d1, WriteDone (nextId s) None,
        SendCommand c d2, WriteDone (nextId s + 2) None, TimerFires (nextId s + 1)] s) =
       moveCompleteCallbacks s @ [nextId s + 2]"
    using assms unfolding fresh_ids_def
    by (cases s) (simp add: trace_defs del: map_of_append)
  have guard:
    "currentCommand (handle (TimerFires tm) s') = None \<and>
     invoked (handle (TimerFires tm) s') = invoked s' @ [(p, Rejected (TimedOut c' d))] \<and>
     moveCompleteCallbacks (handle (TimerFires tm) s') =
       filter (\<lambda>cb. cb \<noteq> p) (moveCompleteCallbacks s')"
    if "map_of (timers s') tm = Some (CommandTimeout c' d p)" "currentCommand s' = Some c'"
    using that
    by (cases s') (simp add: timeout_fires_def invoke_def sendErrorToRenderer_field Let_def)
  show ?thesis using trace guard by blast
qed

theorem stale_timer_rejects_later_issuance_witness:
  "fresh_ids ready \<and> isConnected ready \<and> port ready \<and>
   \<not> (''G28'' = ''M115'' \<or> startsWith ''G28'' ''M114'') \<and>
   currentCommand (run [SendCommand ''G28'' 1000, WriteDone 3 None,
      SendCommand ''G28'' 30000, WriteDone 5 None] ready) = Some ''G28'' \<and>
   currentCommand (run [SendCommand ''G28'' 1000, WriteDone 3 None,
      SendCommand ''G28'' 30000, WriteDone 5 None, TimerFires 4] ready) = None \<and>
   invoked (run [SendCommand ''G28'' 1000, WriteDone 3 None,
      SendCommand ''G28'' 30000, WriteDone 5 None, TimerFires 4] ready) =
     [(2, Fulfilled), (0, Fulfilled), (3, Rejected (TimedOut ''G28'' 1000))] \<and>
   map_of (timers pending_G28) 4 = Some (CommandTimeout ''G28'' 30000 3) \<and>
   currentCommand pending_G28 = Some ''G28'' \<and>
   currentCommand (handle (TimerFires 4) pending_G28) = None \<and>
   invoked (handle (TimerFires 4) pending_G28) =
     [(2, Fulfilled), (0, Fulfilled), (3, Rejected (TimedOut ''G28'' 30000))]"
proof -
  have a: "fresh_ids ready" by (rule fresh_ids_ready)
  have b: "isConnected ready" "port ready" by (simp_all add: ready_eq)
  have c: "\<not> (''G28'' = ''M115'' \<or> startsWith ''G28'' ''M114'')" by (simp add: startsWith_def)
  have n: "nextId ready = 3" "invoked ready = [(2, Fulfilled), (0, Fulfilled)]"
    by (simp_all add: ready_eq)
  have g: "map_of (timers pending_G28) 4 = Some (CommandTimeout ''G28'' 30000 3)"
    "currentCommand pending_G28 = Some ''G28''"
    "invoked pending_G28 = [(2, Fulfilled), (0, Fulfilled)]"
    by (simp_all add: pending_G28_eq)
  show ?thesis
    using a b c g(1,2)
      stale_timer_rejects_later_issuance [OF a b c, of 1000 30000 pending_G28 4 "''G28''" 30000 3]
    by (simp add: n g)
qed

section \<open>The move sequencer\<close>

lemma example_move_text:
  "deltaMove_command \<lparr>x_of = Some (Dec 5 0), y_of = None, z_of = None\<rparr> False (Dec 0 0) = ''G1 X5''"
  by code_simp

text \<open>
  When the motion command of \<^verbatim>\<open>deltaMove\<close> is rejected by its timeout, \<^verbatim>\<open>G90\<close> is written
  before the promise of \<^verbatim>\<open>deltaMove\<close> (\<open>nextId s\<close>) is settled; and when \<^verbatim>\<open>G90\<close> times
  out as well, that error is only recorded and \<^verbatim>\<open>deltaMove\<close> is rejected with the
  timeout of the motion command.
\<close>

lemma deltaMove_compensates_timeout:
  assumes "fresh_ids s" "isConnected s" "port s" "moveCompleteCallbacks s = []"
  shows
    "writes (run [DeltaMove d r, WriteDone (nextId s + 1) None, Data ''ok'',
        WriteDone (nextId s + 3) None, TimerFires (nextId s + 4)] s) =
       writes s @ [''G91'' @ [CHR 0x0A], deltaMove_command d r (currentSpeed s) @ [CHR 0x0A],
                   ''G90'' @ [CHR 0x0A]] \<and>
     invoked (run [DeltaMove d r, WriteDone (nextId s + 1) None, Data ''ok'',
        WriteDone (nextId s + 3) None, TimerFires (nextId s + 4)] s) =
       invoked s @ [(nextId s + 1, Fulfilled),
         (nextId s + 3, Rejected (TimedOut (deltaMove_command d r (currentSpeed s)) 30000))] \<and>
     invoked (run [DeltaMove d r, WriteDone (nextId s + 1) None, Data ''ok'',
        WriteDone (nextId s + 3) None, TimerFires (nextId s + 4),
        WriteDone (nextId s + 5) None, TimerFires (nextId s + 6)] s) =
       invoked s @ [(nextId s + 1, Fulfilled),
         (nextId s + 3, Rejected (TimedOut (deltaMove_command d r (currentSpeed s)) 30000)),
         (nextId s + 5, Rejected (TimedOut ''G90'' 30000)),
         (nextId s, Rejected (TimedOut (deltaMove_command d r (currentSpeed s)) 30000))] \<and>
     restoreFailures (run [DeltaMove d r, WriteDone (nextId s + 1) None, Data ''ok'',
        WriteDone (nextId s + 3) None, TimerFires (nextId s + 4),
        WriteDone (nextId s + 5) None, TimerFires (nextId s + 6)] s) =
       restoreFailures s @ [TimedOut ''G90'' 30000]"
  using assms unfolding fresh_ids_def
  by (cases s) (simp add: trace_defs del: map_of_append)

text \<open>
  Claim C4. The claim: when the motion command of a relative move fails, by an error
  or by a timeout, after relative mode was entered, \<^verbatim>\<open>G90\<close> is attempted before the
  failure reaches the caller. The code when the failure is an error line of the device:
  from every connected state with nothing pending, \<^verbatim>\<open>G91\<close> is written and answered with
  \<^verbatim>\<open>ok\<close>, the motion command is written and answered with a line that begins with
  \<^verbatim>\<open>Error:\<close>. Then \<^verbatim>\<open>G90\<close> has not been written, the promise of \<^verbatim>\<open>deltaMove\<close>
  (\<open>nextId s\<close>) has no result, \<^verbatim>\<open>deltaMove\<close> is still suspended at the motion command,
  and no timer and no write callback is left that could wake it.
\<close>

theorem device_error_on_move_leaves_relative_mode:
  assumes "fresh_ids s" "isConnected s" "port s" "moveCompleteCallbacks s = []"
    and "startsWith (trim line) ''Error:''"
  shows
    "writes (run [DeltaMove d r, WriteDone (nextId s + 1) None, Data ''ok'',
        WriteDone (nextId s + 3) None, Data line] s) =
       writes s @ [''G91'' @ [CHR 0x0A], deltaMove_command d r (currentSpeed s) @ [CHR 0x0A]] \<and>
     invoked (run [DeltaMove d r, WriteDone (nextId s + 1) None, Data ''ok'',
        WriteDone (nextId s + 3) None, Data line] s) = invoked s @ [(nextId s + 1, Fulfilled)] \<and>
     result_of (run [DeltaMove d r, WriteDone (nextId s + 1) None, Data ''ok'',
        WriteDone (nextId s + 3) None, Data line] s) (nextId s) = None \<and>
     awaiting (run [DeltaMove d r, WriteDone (nextId s + 1) None, Data ''ok'',
        WriteDone (nextId s + 3) None, Data line] s) =
       awaiting s @ [(nextId s + 3, DmAwaitMove (nextId s))] \<and>
     timers (run [DeltaMove d r, WriteDone (nextId s + 1) None, Data ''ok'',
        WriteDone (nextId s + 3) None, Data line] s) = timers s \<and>
     writeCallbacks (run [DeltaMove d r, WriteDone (nextId s + 1) None, Data ''ok'',
        WriteDone (nextId s + 3) None, Data line] s) = writeCallbacks s"
proof -
  have "trim line \<noteq> ''ok''"
    using assms(5) by (rule error_line_not_ok)
  then show ?thesis
    using assms unfolding fresh_ids_def
    by (cases s) (simp add: trace_defs del: map_of_append)
qed

theorem device_error_on_move_leaves_relative_mode_witness:
  "fresh_ids ready \<and> isConnected ready \<and> port ready \<and> moveCompleteCallbacks ready = [] \<and>
   startsWith (trim ''Error: limit hit'') ''Error:'' \<and>
   writes (run [DeltaMove \<lparr>x_of = Some (Dec 5 0), y_of = None, z_of = None\<rparr> False,
      WriteDone 4 None, Data ''ok'', WriteDone 6 None, Data ''Error: limit hit''] ready) =
     [''M115'' @ [CHR 0x0A], ''G91'' @ [CHR 0x0A], ''G1 X5'' @ [CHR 0x0A]] \<and>
   timers (run [DeltaMove \<lparr>x_of = Some (Dec 5 0), y_of = None, z_of = None\<rparr> False,
      WriteDone 4 None, Data ''ok'', WriteDone 6 None, Data ''Error: limit hit''] ready) = [] \<and>
   awaiting (run [DeltaMove \<lparr>x_of = Some (Dec 5 0), y_of = None, z_of = None\<rparr> False,
      WriteDone 4 None, Data ''ok'', WriteDone 6 None, Data ''Error: limit hit''] ready) =
     [(6, DmAwaitMove 3)]"
proof -
  have a: "fresh_ids ready" by (rule fresh_ids_ready)
  have b: "isConnected ready" "port ready" "moveCompleteCallbacks ready = []"
    by (simp_all add: ready_eq)
  have c: "startsWith (trim ''Error: limit hit'') ''Error:''"
    by (simp add: trim_def is_space_def startsWith_def)
  have n: "nextId ready = 3" "currentSpeed ready = Dec 0 0" "timers ready = []"
    "awaiting ready = []" "writes ready = [''M115'' @ [CHR 0x0A]]"
    by (simp_all add: ready_eq)
  show ?thesis
    using a b c
      device_error_on_move_leaves_relative_mode [OF a b c,
        of "\<lparr>x_of = Some (Dec 5 0), y_of = None, z_of = None\<rparr>" False]
    by (simp add: n example_move_text)
qed

text \<open>
  Claim C5. The claim: when \<^verbatim>\<open>G91\<close> itself fails, neither the motion command nor
  \<^verbatim>\<open>G90\<close> is written, and the failure reaches the caller at once. The code for a relative
  move of a ready client whose \<^verbatim>\<open>G91\<close> (promise 4, timer 5) times out: \<^verbatim>\<open>G90\<close> is
  written, and the promise of \<^verbatim>\<open>deltaMove\<close> (3) has no result yet.
\<close>

theorem failed_G91_still_sends_G90:
  "writes (run [DeltaMove \<lparr>x_of = Some (Dec 5 0), y_of = None, z_of = None\<rparr> False,
      WriteDone 4 None, TimerFires 5] ready) =
     [''M115'' @ [CHR 0x0A], ''G91'' @ [CHR 0x0A], ''G90'' @ [CHR 0x0A]] \<and>
   result_of (run [DeltaMove \<lparr>x_of = Some (Dec 5 0), y_of = None, z_of = None\<rparr> False,
      WriteDone 4 None, TimerFires 5] ready) 4 = Some (Rejected (TimedOut ''G91'' 30000)) \<and>
   result_of (run [DeltaMove \<lparr>x_of = Some (Dec 5 0), y_of = None, z_of = None\<rparr> False,
      WriteDone 4 None, TimerFires 5] ready) 3 = None"
  by (simp add: ready_eq trace_defs del: map_of_append)

text \<open>
  Claim C5 as amended. When \<^verbatim>\<open>G91\<close> is rejected, the motion command is never written,
  \<^verbatim>\<open>G90\<close> is still attempted, and \<^verbatim>\<open>deltaMove\<close> is rejected with the error of \<^verbatim>\<open>G91\<close> once
  the attempt has settled, whatever its outcome. For a connected client with nothing
  pending: \<^verbatim>\<open>G91\<close> rejected by its timeout or by a write error, \<^verbatim>\<open>G90\<close> then answered with
  \<^verbatim>\<open>ok\<close> or rejected by a write error. For a client that is not connected both commands
  are refused at once, nothing is written, and the second refusal is only recorded.
\<close>

theorem failed_G91_skips_move_and_restores:
  assumes "fresh_ids s" "moveCompleteCallbacks s = []"
  shows
    "(isConnected s \<and> port s \<longrightarrow>
        writes (run [DeltaMove d r, WriteDone (nextId s + 1) None, TimerFires (nextId s + 2)] s) =
          writes s @ [''G91'' @ [CHR 0x0A], ''G90'' @ [CHR 0x0A]] \<and>
        invoked (run [DeltaMove d r, WriteDone (nextId s + 1) None, TimerFires (nextId s + 2)] s) =
          invoked s @ [(nextId s + 1, Rejected (TimedOut ''G91'' 30000))] \<and>
        writes (run [DeltaMove d r, WriteDone (nextId s + 1) None, TimerFires (nextId s + 2),
            WriteDone (nextId s + 3) None, Data ''ok''] s) =
          writes s @ [''G91'' @ [CHR 0x0A], ''G90'' @ [CHR 0x0A]] \<and>
        invoked (run [DeltaMove d r, WriteDone (nextId s + 1) None, TimerFires (nextId s + 2),
            WriteDone (nextId s + 3) None, Data ''ok''] s) =
          invoked s @ [(nextId s + 1, Rejected (TimedOut ''G91'' 30000)), (nextId s + 3, Fulfilled),
                       (nextId s, Rejected (TimedOut ''G91'' 30000))] \<and>
        writes (run [DeltaMove d r, WriteDone (nextId s + 1) (Some m)] s) =
          writes s @ [''G91'' @ [CHR 0x0A], ''G90'' @ [CHR 0x0A]] \<and>
        invoked (run [DeltaMove d r, WriteDone (nextId s + 1) (Some m),
            WriteDone (nextId s + 2) (Some m')] s) =
          invoked s @ [(nextId s + 1, Rejected (External m)), (nextId s + 2, Rejected (External m')),
                       (nextId s, Rejected (External m))] \<and>
        restoreFailures (run [DeltaMove d r, WriteDone (nextId s + 1) (Some m),
            WriteDone (nextId s + 2) (Some m')] s) = restoreFailures s @ [External m']) \<and>
     (\<not> (isConnected s \<and> port s) \<longrightarrow>
        writes (step (DeltaMove d r) s) = writes s \<and>
        invoked (step (DeltaMove d r) s) =
          invoked s @ [(nextId s + 1, Rejected NotConnected), (nextId s + 2, Rejected NotConnected),
                       (nextId s, Rejected NotConnected)] \<and>
        restoreFailures (step (DeltaMove d r) s) = restoreFailures s @ [NotConnected])"
  using assms unfolding fresh_ids_def
  by (cases s) (simp add: trace_defs del: map_of_append)

theorem failed_G91_skips_move_and_restores_witness:
  "fresh_ids ready \<and> moveCompleteCallbacks ready = [] \<and> isConnected ready \<and> port ready \<and>
   writes (run [DeltaMove \<lparr>x_of = Some (Dec 5 0), y_of = None, z_of = None\<rparr> False,
      WriteDone 4 None, TimerFires 5, WriteDone 6 None, Data ''ok''] ready) =
     [''M115'' @ [CHR 0x0A], ''G91'' @ [CHR 0x0A], ''G90'' @ [CHR 0x0A]] \<and>
   invoked (run [DeltaMove \<lparr>x_of = Some (Dec 5 0), y_of = None, z_of = None\<rparr> False,
      WriteDone 4 None, TimerFires 5, WriteDone 6 None, Data ''ok''] ready) =
     [(2, Fulfilled), (0, Fulfilled), (4, Rejected (TimedOut ''G91'' 30000)), (6, Fulfilled),
      (3, Rejected (TimedOut ''G91'' 30000))] \<and>
   fresh_ids new_client \<and> \<not> (isConnected new_client \<and> port new_client) \<and>
   writes (step (DeltaMove \<lparr>x_of = Some (Dec 5 0), y_of = None, z_of = None\<rparr> False) new_client) = [] \<and>
   invoked (step (DeltaMove \<lparr>x_of = Some (Dec 5 0), y_of = None, z_of = None\<rparr> False) new_client) =
     [(1, Rejected NotConnected), (2, Rejected NotConnected), (0, Rejected NotConnected)]"
proof -
  have a: "fresh_ids ready" "moveCompleteCallbacks ready = []" "isConnected ready" "port ready"
    by (simp_all add: fresh_ids_def ready_eq)
  have b: "fresh_ids new_client" "moveCompleteCallbacks new_client = []"
    "\<not> (isConnected new_client \<and> port new_client)"
    by (simp_all add: fresh_ids_def new_client_def)
  have n: "nextId ready = 3" "writes ready = [''M115'' @ [CHR 0x0A]]"
    "invoked ready = [(2, Fulfilled), (0, Fulfilled)]"
    "nextId new_client = 0" "writes new_client = []" "invoked new_client = []"
    by (simp_all add: ready_eq new_client_def)
  show ?thesis
    using a b
      failed_G91_skips_move_and_restores [OF a(1,2),
        of "\<lparr>x_of = Some (Dec 5 0), y_of = None, z_of = None\<rparr>" False]
      failed_G91_skips_move_and_restores [OF b(1,2),
        of "\<lparr>x_of = Some (Dec 5 0), y_of = None, z_of = None\<rparr>" False]
    by (simp add: n)
qed

section \<open>Connection events\<close>







section \<open>The cached position\<close>

lemma example_absolute_text:
  "absoluteMove_command \<lparr>x_of = Some (Dec 10 0), y_of = Some (Dec 0 0), z_of = Some (Dec 0 0)\<rparr>
     False (Dec 0 0) = ''G1 X10 Y0 Z0''"
  by code_simp

text \<open>The numbers of the examples below: \<open>10 = 5 * 2\<close>, \<open>20 = 5 * 4\<close> and \<open>1000 = 125 * 8\<close>.\<close>

lemma double_of_int_examples:
  "double_of_int 0 = Finite False 0 0"
  "double_of_int 10 = Finite False 5 1"
  "double_of_int 20 = Finite False 5 2"
  "double_of_int 1000 = Finite False 125 3"
  by (simp_all add: double_of_int_def round_to_double_def bit_length.simps strip_twos.simps
      Let_def)

text \<open>
  Claim C9. The claim: the cached position is set to the commanded target when a move
  command has completed, as after \<^verbatim>\<open>absoluteMove\<close> to \<open>(10, 0, 0)\<close> and the line \<^verbatim>\<open>ok\<close>. The
  code: on a page that is connected (a port selected, the connect button clicked), the
  handler of the absolute move sets the position to \<open>(10, 0, 0)\<close> while no command has
  been written; and the client's \<^verbatim>\<open>absoluteMove\<close> to \<open>(10, 0, 0)\<close>, written and completed
  by \<^verbatim>\<open>ok\<close>, leaves the position of the page at the origin.
\<close>

theorem position_cache_ignores_completion:
  "ui_isConnected (the_page (app_run
      [Ui (SelectPort ''COM1''), Ui ClickConnect, Ui (EditAbsoluteMove AxisX (double_of_int 10))]
      ready_app)) \<and>
   position_value (the_page (app_run
      [Ui (SelectPort ''COM1''), Ui ClickConnect, Ui (EditAbsoluteMove AxisX (double_of_int 10)),
       Ui ClickAbsoluteMove] ready_app)) =
     \<lparr>px = double_of_int 10, py = Finite False 0 0, pz = Finite False 0 0\<rparr> \<and>
   writes (the_client (app_run
      [Ui (SelectPort ''COM1''), Ui ClickConnect, Ui (EditAbsoluteMove AxisX (double_of_int 10)),
       Ui ClickAbsoluteMove] ready_app)) =
     [''M115'' @ [CHR 0x0A]] \<and>
   writes (the_client (app_run
      [Printer (AbsoluteMove \<lparr>x_of = Some (Dec 10 0), y_of = Some (Dec 0 0), z_of = Some (Dec 0 0)\<rparr> False),
       Printer (WriteDone 3 None), Printer (Data ''ok'')] ready_app)) =
     [''M115'' @ [CHR 0x0A], ''G1 X10 Y0 Z0'' @ [CHR 0x0A]] \<and>
   result_of (the_client (app_run
      [Printer (AbsoluteMove \<lparr>x_of = Some (Dec 10 0), y_of = Some (Dec 0 0), z_of = Some (Dec 0 0)\<rparr> False),
       Printer (WriteDone 3 None), Printer (Data ''ok'')] ready_app)) 3 = Some Fulfilled \<and>
   position_value (the_page (app_run
      [Printer (AbsoluteMove \<lparr>x_of = Some (Dec 10 0), y_of = Some (Dec 0 0), z_of = Some (Dec 0 0)\<rparr> False),
       Printer (WriteDone 3 None), Printer (Data ''ok'')] ready_app)) =
     \<lparr>px = Finite False 0 0, py = Finite False 0 0, pz = Finite False 0 0\<rparr> \<and>
   position_value (the_page (app_run
      [Ui (SelectPort ''COM1''), Ui ClickConnect,
       Printer (AbsoluteMove \<lparr>x_of = Some (Dec 10 0), y_of = Some (Dec 0 0), z_of = Some (Dec 0 0)\<rparr> False),
       Printer (WriteDone 3 None), Printer (Data ''ok'')] ready_app)) =
     \<lparr>px = Finite False 0 0, py = Finite False 0 0, pz = Finite False 0 0\<rparr>"
  by (simp add: app_run_def ready_app_def new_page_def origin_def position_value_def
      handleConnect_def handleAbsoluteMove_def addLog_def
      ready_eq step_def wake_def result_of_def absoluteMove_def sendCommand_def write_callback_def
      on_data_def processResponse_def on_ok_def clear_timeout_def onMoveComplete_def fresh_def
      invoke_def default_timeout_def Let_def example_absolute_text startsWith_def trim_def
      is_space_def)

text \<open>
  Claim C9 as amended. The cached position belongs to the page and is set by four of its
  handlers, which run when their button is clicked on a connected page: the handler of
  the absolute move sets it to the target entered, the handler of the relative move adds
  the distances entered with the addition of the language, and the two home handlers set
  it to the origin. On a page that is not connected the buttons do nothing. Connecting,
  disconnecting, the speed, the choice of the port and every event of the serial client
  leave the position as it is, and no event of the page reaches the client.
\<close>

theorem position_cache_set_by_page_handlers:
  "position_value (ui_handle ClickAbsoluteMove g) =
     (if ui_isConnected g then objects g (ui_absoluteMove g) else position_value g) \<and>
   position_value (ui_handle ClickDeltaMove g) =
     (if ui_isConnected g
      then \<lparr> px = number_add (px (position_value g)) (px (objects g (ui_deltaMove g))),
             py = number_add (py (position_value g)) (py (objects g (ui_deltaMove g))),
             pz = number_add (pz (position_value g)) (pz (objects g (ui_deltaMove g))) \<rparr>
      else position_value g) \<and>
   position_value (ui_handle ClickSetHome g) =
     (if ui_isConnected g
      then \<lparr>px = Finite False 0 0, py = Finite False 0 0, pz = Finite False 0 0\<rparr>
      else position_value g) \<and>
   position_value (ui_handle ClickGoHome g) =
     (if ui_isConnected g
      then \<lparr>px = Finite False 0 0, py = Finite False 0 0, pz = Finite False 0 0\<rparr>
      else position_value g) \<and>
   position_value (ui_handle ClickConnect g) = position_value g \<and>
   position_value (ui_handle ClickDisconnect g) = position_value g \<and>
   position_value (ui_handle ClickSetSpeed g) = position_value g \<and>
   position_value (ui_handle (EditSpeed v) g) = position_value g \<and>
   position_value (ui_handle (SelectPort n) g) = position_value g \<and>
   the_page (app_step (Printer e) a) = the_page a \<and>
   the_client (app_step (Ui u) a) = the_client a"
  by (simp add: position_value_def handleAbsoluteMove_def handleDeltaMove_def handleSetHome_def
      handleGoHome_def handleConnect_def handleDisconnect_def handleSetSpeed_def addLog_def
      new_object_def origin_def Let_def)

text \<open>
  The addition is the one of doubles: on a connected page at the origin, a relative move
  by the double next to \<open>0.1\<close> and then one by the double next to \<open>0.2\<close> give the double
  that prints as \<^verbatim>\<open>0.30000000000000004\<close>, which is \<open>1351079888211149 * 2 ^ - 52\<close>.
\<close>

lemma relative_moves_add_doubles:
  "number_add (Finite False 3602879701896397 (- 55)) (Finite False 3602879701896397 (- 54)) =
     Finite False 1351079888211149 (- 52) \<and>
   px (position_value (app_run_page
      [SelectPort ''COM1'', ClickConnect,
       EditDeltaMove AxisX (Finite False 3602879701896397 (- 55)), ClickDeltaMove,
       EditDeltaMove AxisX (Finite False 3602879701896397 (- 54)), ClickDeltaMove] new_page)) =
     Finite False 1351079888211149 (- 52)"
proof -
  have r1: "round_to_double False 3602879701896397 (- 55) = Finite False 3602879701896397 (- 55)"
    by (simp add: round_to_double_def bit_length.simps strip_twos.simps Let_def)
  have r2: "round_to_double False 10808639105689191 (- 55) = Finite False 1351079888211149 (- 52)"
    by (simp add: round_to_double_def bit_length.simps strip_twos.simps Let_def)
  have a: "number_add (Finite False 0 0) (Finite False 3602879701896397 (- 55)) =
      Finite False 3602879701896397 (- 55)"
    by (simp add: signed_value_def Let_def r1)
  have b: "number_add (Finite False 3602879701896397 (- 55)) (Finite False 3602879701896397 (- 54)) =
      Finite False 1351079888211149 (- 52)"
    by (simp add: signed_value_def Let_def r2)
  have "px (position_value (app_run_page
      [SelectPort ''COM1'', ClickConnect,
       EditDeltaMove AxisX (Finite False 3602879701896397 (- 55)), ClickDeltaMove,
       EditDeltaMove AxisX (Finite False 3602879701896397 (- 54)), ClickDeltaMove] new_page)) =
     number_add (number_add (Finite False 0 0) (Finite False 3602879701896397 (- 55)))
       (Finite False 3602879701896397 (- 54))"
    by (simp add: position_value_def app_run_page_def new_page_def origin_def handleConnect_def
        handleDeltaMove_def new_object_def addLog_def Let_def del: number_add.simps)
  then show ?thesis
    using a b by (simp del: number_add.simps)
qed

text \<open>
  Since the handler of the absolute move stores the form object itself, an edit of that
  form afterwards shows in the position: the inputs write the position whenever it is
  the object of their form.
\<close>

lemma edit_of_shared_form:
  "position_value (ui_handle (EditAbsoluteMove ax v) g) =
     (if ui_position g = ui_absoluteMove g then set_axis ax v (position_value g)
      else position_value g) \<and>
   position_value (app_run_page
      [SelectPort ''COM1'', ClickConnect, ClickAbsoluteMove,
       EditAbsoluteMove AxisX (double_of_int 20)] new_page) =
     \<lparr>px = double_of_int 20, py = Finite False 0 0, pz = Finite False 0 0\<rparr>"
  by (simp add: position_value_def app_run_page_def new_page_def origin_def handleConnect_def
      handleAbsoluteMove_def addLog_def)

end
